theory Spec2Isabelle
  imports Main "HOL-Library.Word" "HOL-Library.Log_Nat"
begin

unbundle bit_operations_syntax

section \<open>Machine types\<close>

text \<open>
  The fixed-width integers of the C++ sources are words of the same width: arithmetic
  wraps as the unsigned types (and the atomics built on them) do. \<open>size_t\<close> values are
  lengths of byte and sample sequences and are modelled by \<open>nat\<close>. A pointer together
  with its element count is the list of the elements it addresses; a
  \<open>std::shared_ptr\<close> that may be null is an \<open>option\<close>.
\<close>

type_synonym uint8_t = "8 word"
type_synonym int16_t = "16 word"
type_synonym uint32_t = "32 word"
type_synonym uint64_t = "64 word"

text \<open>
  \<open>memcpy\<close> and \<open>reinterpret_cast<uint8_t*>\<close> expose the object representation of an
  integer, which depends on the byte order of the host the program runs on. The host is
  a parameter of every function that reads or writes an object representation.
\<close>

datatype byte_order = LittleEndian | BigEndian

definition bytes_of_uint32 :: "byte_order \<Rightarrow> uint32_t \<Rightarrow> uint8_t list" where
  "bytes_of_uint32 h w =
     (let lsb_first = [ucast w, ucast (drop_bit 8 w), ucast (drop_bit 16 w), ucast (drop_bit 24 w)]
      in case h of LittleEndian \<Rightarrow> lsb_first | BigEndian \<Rightarrow> rev lsb_first)"

definition uint32_of_lsb_first :: "uint8_t \<Rightarrow> uint8_t \<Rightarrow> uint8_t \<Rightarrow> uint8_t \<Rightarrow> uint32_t" where
  "uint32_of_lsb_first b0 b1 b2 b3 =
     ucast b0 OR push_bit 8 (ucast b1) OR push_bit 16 (ucast b2) OR push_bit 24 (ucast b3)"

fun uint32_of_bytes :: "byte_order \<Rightarrow> uint8_t list \<Rightarrow> uint32_t" where
  "uint32_of_bytes LittleEndian (b0 # b1 # b2 # b3 # rest) = uint32_of_lsb_first b0 b1 b2 b3"
| "uint32_of_bytes BigEndian (b0 # b1 # b2 # b3 # rest) = uint32_of_lsb_first b3 b2 b1 b0"
| "uint32_of_bytes h short = 0"

definition bytes_of_int16 :: "byte_order \<Rightarrow> int16_t \<Rightarrow> uint8_t list" where
  "bytes_of_int16 h w =
     (case h of LittleEndian \<Rightarrow> [ucast w, ucast (drop_bit 8 w)]
              | BigEndian \<Rightarrow> [ucast (drop_bit 8 w), ucast w])"

definition int16_of_byte_pair :: "byte_order \<Rightarrow> uint8_t \<Rightarrow> uint8_t \<Rightarrow> int16_t" where
  "int16_of_byte_pair h b0 b1 =
     (case h of LittleEndian \<Rightarrow> ucast b0 OR push_bit 8 (ucast b1)
              | BigEndian \<Rightarrow> ucast b1 OR push_bit 8 (ucast b0))"

section \<open>BufferManager (BufferManager.h, BufferManager.cpp)\<close>

text \<open>
  \<open>struct AudioPacket\<close>. The \<open>timestamp\<close> field is a reading of the steady clock taken
  in the constructor; no function modelled here reads it, and it is left out.
\<close>

record AudioPacket =
  ap_data :: "uint8_t list"
  ap_sequenceNumber :: uint32_t
  ap_size :: nat

text \<open>\<open>AudioPacket(const uint8_t* audioData, size_t dataSize, uint32_t seqNum)\<close>\<close>

definition AudioPacket_ctor :: "uint8_t list \<Rightarrow> uint32_t \<Rightarrow> AudioPacket" where
  "AudioPacket_ctor audioData seqNum =
     \<lparr>ap_data = audioData, ap_sequenceNumber = seqNum, ap_size = length audioData\<rparr>"

text \<open>
  \<open>class BufferManager\<close>. A \<open>std::queue\<close> is the list of its elements, front first.
  The mutexes and condition variables are not modelled: every member function is its
  body run to completion. A private member \<open>name_\<close> of a class is the field \<open>name\<close> of
  its record, with a prefix where two classes use one name.
\<close>

record BufferManager =
  inputBuffer :: "AudioPacket list"
  outputBuffer :: "AudioPacket list"
  maxBufferSize :: nat
  bm_nextSequenceNumber :: uint32_t
  droppedPackets :: uint64_t
  totalPackets :: uint64_t

text \<open>\<open>Config::BUFFER_COUNT\<close> and \<open>Config::PACKET_SIZE\<close>\<close>

definition BUFFER_COUNT :: nat where
  "BUFFER_COUNT = 10"

definition PACKET_SIZE :: nat where
  "PACKET_SIZE = 1024"

definition BufferManager_ctor :: BufferManager where
  "BufferManager_ctor =
     \<lparr>inputBuffer = [], outputBuffer = [], maxBufferSize = BUFFER_COUNT,
      bm_nextSequenceNumber = 0, droppedPackets = 0, totalPackets = 0\<rparr>"

definition isBufferFull :: "BufferManager \<Rightarrow> AudioPacket list \<Rightarrow> bool" where
  "isBufferFull bm buffer = (maxBufferSize bm \<le> length buffer)"

definition removeOldPackets :: "AudioPacket list \<Rightarrow> AudioPacket list" where
  "removeOldPackets buffer = (if buffer \<noteq> [] then tl buffer else buffer)"

definition pushAudioPacket :: "BufferManager \<Rightarrow> AudioPacket option \<Rightarrow> bool \<times> BufferManager" where
  "pushAudioPacket bm packet =
     (case packet of
        None \<Rightarrow> (False, bm)
      | Some p \<Rightarrow>
          let bm1 = (if isBufferFull bm (inputBuffer bm)
                     then bm\<lparr>inputBuffer := removeOldPackets (inputBuffer bm),
                             droppedPackets := droppedPackets bm + 1\<rparr>
                     else bm)
          in (True, bm1\<lparr>inputBuffer := inputBuffer bm1 @ [p],
                         totalPackets := totalPackets bm1 + 1\<rparr>))"

definition popAudioPacket :: "BufferManager \<Rightarrow> AudioPacket option \<times> BufferManager" where
  "popAudioPacket bm =
     (case inputBuffer bm of
        [] \<Rightarrow> (None, bm)
      | p # rest \<Rightarrow> (Some p, bm\<lparr>inputBuffer := rest\<rparr>))"

text \<open>
  \<open>pushInputBuffer(const uint8_t* data, size_t size)\<close>: the null test and the test
  \<open>size == 0\<close> are the one test for the empty list.
\<close>

definition pushInputBuffer :: "BufferManager \<Rightarrow> uint8_t list \<Rightarrow> bool \<times> BufferManager" where
  "pushInputBuffer bm bytes =
     (if bytes = [] then (False, bm)
      else pushAudioPacket (bm\<lparr>bm_nextSequenceNumber := bm_nextSequenceNumber bm + 1\<rparr>)
             (Some (AudioPacket_ctor bytes (bm_nextSequenceNumber bm))))"

definition getNextOutputPacket :: "BufferManager \<Rightarrow> AudioPacket option \<times> BufferManager" where
  "getNextOutputPacket bm = popAudioPacket bm"

definition pushNetworkPacket :: "BufferManager \<Rightarrow> AudioPacket option \<Rightarrow> bool \<times> BufferManager" where
  "pushNetworkPacket bm packet =
     (case packet of
        None \<Rightarrow> (False, bm)
      | Some p \<Rightarrow>
          let bm1 = (if isBufferFull bm (outputBuffer bm)
                     then bm\<lparr>outputBuffer := removeOldPackets (outputBuffer bm),
                             droppedPackets := droppedPackets bm + 1\<rparr>
                     else bm)
          in (True, bm1\<lparr>outputBuffer := outputBuffer bm1 @ [p]\<rparr>))"

text \<open>
  \<open>getNextPlaybackPacket\<close> waits up to 10 ms on the condition variable and then looks
  at the queue. No other thread runs in this model, so the wait ends with the queue as
  it was.
\<close>

definition getNextPlaybackPacket :: "BufferManager \<Rightarrow> AudioPacket option \<times> BufferManager" where
  "getNextPlaybackPacket bm =
     (case outputBuffer bm of
        [] \<Rightarrow> (None, bm)
      | p # rest \<Rightarrow> (Some p, bm\<lparr>outputBuffer := rest\<rparr>))"

definition clearBuffers :: "BufferManager \<Rightarrow> BufferManager" where
  "clearBuffers bm = bm\<lparr>inputBuffer := [], outputBuffer := [], bm_nextSequenceNumber := 0\<rparr>"

definition setMaxBufferSize :: "BufferManager \<Rightarrow> nat \<Rightarrow> BufferManager" where
  "setMaxBufferSize bm maxSize = bm\<lparr>maxBufferSize := maxSize\<rparr>"

definition getInputBufferSize :: "BufferManager \<Rightarrow> nat" where
  "getInputBufferSize bm = length (inputBuffer bm)"

definition getOutputBufferSize :: "BufferManager \<Rightarrow> nat" where
  "getOutputBufferSize bm = length (outputBuffer bm)"

text \<open>
  Sequences of calls on one buffer manager. \<open>pushAll\<close> pushes the frames of a list in
  order through \<open>pushAudioPacket\<close>; \<open>popAll\<close> calls \<open>popAudioPacket\<close> a given number of
  times and collects what the calls return.
\<close>

fun pushAll :: "BufferManager \<Rightarrow> AudioPacket list \<Rightarrow> BufferManager" where
  "pushAll bm [] = bm"
| "pushAll bm (p # ps) = pushAll (snd (pushAudioPacket bm (Some p))) ps"

fun popAll :: "BufferManager \<Rightarrow> nat \<Rightarrow> AudioPacket option list" where
  "popAll bm 0 = []"
| "popAll bm (Suc n) = fst (popAudioPacket bm) # popAll (snd (popAudioPacket bm)) n"

datatype buffer_call =
    PushAudioPacket "AudioPacket option"
  | PopAudioPacket
  | PushInputBuffer "uint8_t list"
  | GetNextOutputPacket
  | PushNetworkPacket "AudioPacket option"
  | GetNextPlaybackPacket
  | ClearBuffers

fun buffer_step :: "BufferManager \<Rightarrow> buffer_call \<Rightarrow> BufferManager" where
  "buffer_step bm (PushAudioPacket p) = snd (pushAudioPacket bm p)"
| "buffer_step bm PopAudioPacket = snd (popAudioPacket bm)"
| "buffer_step bm (PushInputBuffer bytes) = snd (pushInputBuffer bm bytes)"
| "buffer_step bm GetNextOutputPacket = snd (getNextOutputPacket bm)"
| "buffer_step bm (PushNetworkPacket p) = snd (pushNetworkPacket bm p)"
| "buffer_step bm GetNextPlaybackPacket = snd (getNextPlaybackPacket bm)"
| "buffer_step bm ClearBuffers = clearBuffers bm"

definition buffer_run :: "BufferManager \<Rightarrow> buffer_call list \<Rightarrow> BufferManager" where
  "buffer_run bm calls = foldl buffer_step bm calls"

text \<open>
  The capacity invariant of a buffer manager whose limit is \<open>K\<close>, and the frame used in
  the burst scenario: a two-byte payload carrying a given sequence number.
\<close>

definition within_capacity :: "nat \<Rightarrow> BufferManager \<Rightarrow> bool" where
  "within_capacity K bm =
     (maxBufferSize bm = K \<and> length (inputBuffer bm) \<le> K \<and> length (outputBuffer bm) \<le> K)"

definition frame_with_seq :: "nat \<Rightarrow> AudioPacket" where
  "frame_with_seq i = AudioPacket_ctor [0, 0] (of_nat i)"

section \<open>UDPManager (UDPManager.h, UDPManager.cpp)\<close>

text \<open>
  The wire format. \<open>serializePacket\<close> appends the four bytes of the object
  representation of the sequence number and then the payload; \<open>deserializePacket\<close>
  copies the first four bytes of the datagram into a \<open>uint32_t\<close> with \<open>memcpy\<close> and
  takes the rest as payload. Both go through the host's byte order.
\<close>

definition serializePacket :: "byte_order \<Rightarrow> AudioPacket option \<Rightarrow> uint8_t list" where
  "serializePacket h packet =
     (case packet of
        None \<Rightarrow> []
      | Some p \<Rightarrow> bytes_of_uint32 h (ap_sequenceNumber p) @ ap_data p)"

definition deserializePacket :: "byte_order \<Rightarrow> uint8_t list \<Rightarrow> AudioPacket option" where
  "deserializePacket h bytes =
     (if length bytes < 4 then None
      else Some (AudioPacket_ctor (drop 4 bytes) (uint32_of_bytes h bytes)))"

record sockaddr_in =
  sin_addr :: uint32_t
  sin_port :: "16 word"

text \<open>
  The two callbacks are \<open>std::function\<close> objects that may be empty. The model keeps
  whether each is set and the list of the calls made so far, oldest first.
\<close>

datatype callback_call =
    OnPacketReceived AudioPacket
  | OnDataReceived "uint8_t list"

record UDPManager =
  socketFd :: int
  remoteAddr :: sockaddr_in
  isRunning :: bool
  isServer :: bool
  bufferManager :: "BufferManager option"
  onDataReceived_set :: bool
  onPacketReceived_set :: bool
  callback_calls :: "callback_call list"
  sentPackets :: uint64_t
  receivedPackets :: uint64_t
  failedSends :: uint64_t

definition UDPManager_ctor :: UDPManager where
  "UDPManager_ctor =
     \<lparr>socketFd = - 1, remoteAddr = \<lparr>sin_addr = 0, sin_port = 0\<rparr>,
      isRunning = False, isServer = False, bufferManager = None,
      onDataReceived_set = False, onPacketReceived_set = False, callback_calls = [],
      sentPackets = 0, receivedPackets = 0, failedSends = 0\<rparr>"

text \<open>
  \<open>sendData\<close>: the result of the \<open>sendto\<close> system call (the number of bytes sent, or
  a negative value) is an argument.
\<close>

definition sendData :: "UDPManager \<Rightarrow> uint8_t list \<Rightarrow> int \<Rightarrow> bool \<times> UDPManager" where
  "sendData u bytes bytesSent =
     (if bytes = [] \<or> \<not> isRunning u \<or> socketFd u < 0 then (False, u)
      else if bytesSent < 0 then (False, u\<lparr>failedSends := failedSends u + 1\<rparr>)
      else if bytesSent \<noteq> int (length bytes) then (False, u\<lparr>failedSends := failedSends u + 1\<rparr>)
      else (True, u\<lparr>sentPackets := sentPackets u + 1\<rparr>))"

definition sendAudioPacket ::
  "byte_order \<Rightarrow> UDPManager \<Rightarrow> AudioPacket option \<Rightarrow> int \<Rightarrow> bool \<times> UDPManager" where
  "sendAudioPacket h u packet bytesSent =
     (if packet = None \<or> \<not> isRunning u then (False, u)
      else sendData u (serializePacket h packet) bytesSent)"

definition processReceivedData ::
  "byte_order \<Rightarrow> UDPManager \<Rightarrow> uint8_t list \<Rightarrow> sockaddr_in \<Rightarrow> bool \<times> UDPManager" where
  "processReceivedData h u bytes fromAddr =
     (if bytes = [] then (False, u)
      else
        let u1 = (if isServer u then u\<lparr>remoteAddr := fromAddr\<rparr> else u);
            u2 = (case deserializePacket h bytes of
                    None \<Rightarrow> u1
                  | Some p \<Rightarrow>
                      let u' = (case bufferManager u1 of
                                  None \<Rightarrow> u1
                                | Some bm \<Rightarrow>
                                    u1\<lparr>bufferManager := Some (snd (pushNetworkPacket bm (Some p)))\<rparr>)
                      in if onPacketReceived_set u'
                         then u'\<lparr>callback_calls := callback_calls u' @ [OnPacketReceived p]\<rparr>
                         else u');
            u3 = (if onDataReceived_set u2
                  then u2\<lparr>callback_calls := callback_calls u2 @ [OnDataReceived bytes]\<rparr>
                  else u2)
        in (True, u3))"

text \<open>
  \<open>receiverLoop\<close>. Each iteration blocks in \<open>recvfrom\<close>; what the calls return is the
  list given to the model: a failure, or a datagram with its source address, of which the
  2048-byte buffer (\<open>Config::PACKET_SIZE * 2\<close>) keeps the first 2048 bytes. The loop ends
  (\<open>LoopExited\<close>) when \<open>isRunning\<close> is false or \<open>recvfrom\<close> fails; when the list is
  used up while the loop is running, the thread is blocked in the next \<open>recvfrom\<close>
  (\<open>BlockedInRecvfrom\<close>): the loop is alive.
\<close>

datatype recvfrom_result = RecvFailed | RecvDatagram "uint8_t list" sockaddr_in

datatype loop_state = LoopExited | BlockedInRecvfrom

fun receiverLoop ::
  "byte_order \<Rightarrow> UDPManager \<Rightarrow> recvfrom_result list \<Rightarrow> loop_state \<times> UDPManager" where
  "receiverLoop h u [] = (if isRunning u then (BlockedInRecvfrom, u) else (LoopExited, u))"
| "receiverLoop h u (RecvFailed # rest) = (LoopExited, u)"
| "receiverLoop h u (RecvDatagram datagram fromAddr # rest) =
     (if \<not> isRunning u then (LoopExited, u)
      else
        let buffer = take (PACKET_SIZE * 2) datagram
        in if 0 < length buffer
           then let u1 = snd (processReceivedData h u buffer fromAddr)
                in receiverLoop h (u1\<lparr>receivedPackets := receivedPackets u1 + 1\<rparr>) rest
           else receiverLoop h u rest)"

text \<open>A manager that was started as a listener with a playback buffer and both callbacks.\<close>

definition listening_manager :: UDPManager where
  "listening_manager =
     UDPManager_ctor\<lparr>socketFd := 3, isRunning := True, isServer := True,
       bufferManager := Some BufferManager_ctor,
       onDataReceived_set := True, onPacketReceived_set := True\<rparr>"

definition counters :: "UDPManager \<Rightarrow> uint64_t \<times> uint64_t \<times> uint64_t" where
  "counters u = (sentPackets u, receivedPackets u, failedSends u)"

text \<open>
  The state the loop continues with after a datagram of fewer than four bytes: nothing
  for an empty datagram (the loop skips it); otherwise the source address is learnt in
  listener mode, the raw-data callback (if set) is called, and the datagram is counted as
  received.
\<close>

definition after_short_datagram :: "UDPManager \<Rightarrow> uint8_t list \<Rightarrow> sockaddr_in \<Rightarrow> UDPManager" where
  "after_short_datagram u datagram fromAddr =
     (if datagram = [] then u
      else u\<lparr>remoteAddr := (if isServer u then fromAddr else remoteAddr u),
             callback_calls :=
               callback_calls u @ (if onDataReceived_set u then [OnDataReceived datagram] else []),
             receivedPackets := receivedPackets u + 1\<rparr>)"

text \<open>The address the datagrams of the scenarios come from (127.0.0.1, port 40000).\<close>

definition peer_addr :: sockaddr_in where
  "peer_addr = \<lparr>sin_addr = 0x7F000001, sin_port = 40000\<rparr>"

section \<open>Config (Config.h)\<close>

definition SAMPLE_RATE :: uint32_t where
  "SAMPLE_RATE = 48000"

definition CHANNELS :: uint32_t where
  "CHANNELS = 1"

definition FRAMES_PER_BUFFER :: nat where
  "FRAMES_PER_BUFFER = 1024"

definition LYRA_SAMPLE_RATE :: uint32_t where
  "LYRA_SAMPLE_RATE = 16000"

definition LYRA_FRAME_SIZE_MS :: uint32_t where
  "LYRA_FRAME_SIZE_MS = 20"

definition LYRA_FRAME_SIZE :: uint32_t where
  "LYRA_FRAME_SIZE = (LYRA_SAMPLE_RATE * LYRA_FRAME_SIZE_MS) div 1000"

definition LYRA_MIN_BITRATE :: uint32_t where
  "LYRA_MIN_BITRATE = 3200"

definition LYRA_MAX_BITRATE :: uint32_t where
  "LYRA_MAX_BITRATE = 9200"

definition LYRA_DEFAULT_BITRATE :: uint32_t where
  "LYRA_DEFAULT_BITRATE = 6000"

section \<open>LyraCodec (LyraCodec.h, LyraCodec.cpp)\<close>

text \<open>
  \<open>struct EncodedPacket\<close> and \<open>class LyraCodec\<close>. \<open>initializeLyra\<close> returns false in
  both build variants and leaves the encoder and decoder pointers null, so
  \<open>isLyraAvailable\<close> is false and every branch of \<open>encode\<close> and \<open>decode\<close> calls
  \<open>encodeRaw\<close> and \<open>decodeRaw\<close>. The \<open>catch\<close> clauses guard against exceptions of the
  allocator, which are not modelled.
\<close>

record EncodedPacket =
  ep_data :: "uint8_t list"
  ep_sequenceNumber :: uint32_t
  ep_bitrate :: uint32_t
  ep_timestamp :: uint64_t

text \<open>\<open>EncodedPacket(packetData, seqNum, br)\<close>: the timestamp starts at 0.\<close>

definition EncodedPacket_ctor :: "uint8_t list \<Rightarrow> uint32_t \<Rightarrow> uint32_t \<Rightarrow> EncodedPacket" where
  "EncodedPacket_ctor packetData seqNum br =
     \<lparr>ep_data = packetData, ep_sequenceNumber = seqNum, ep_bitrate = br, ep_timestamp = 0\<rparr>"

record LyraCodec =
  lc_initialized :: bool
  lc_sampleRate :: uint32_t
  lc_channels :: uint32_t
  lc_currentBitrate :: uint32_t
  lc_frameSize :: uint32_t
  lc_nextSequenceNumber :: uint32_t
  encodedFrames :: uint64_t
  decodedFrames :: uint64_t
  encodingErrors :: uint64_t
  decodingErrors :: uint64_t

definition LyraCodec_ctor :: LyraCodec where
  "LyraCodec_ctor =
     \<lparr>lc_initialized = False, lc_sampleRate = LYRA_SAMPLE_RATE, lc_channels = CHANNELS,
      lc_currentBitrate = LYRA_DEFAULT_BITRATE, lc_frameSize = LYRA_FRAME_SIZE,
      lc_nextSequenceNumber = 0, encodedFrames = 0, decodedFrames = 0,
      encodingErrors = 0, decodingErrors = 0\<rparr>"

definition isValidBitrate :: "uint32_t \<Rightarrow> bool" where
  "isValidBitrate bitrate = (LYRA_MIN_BITRATE \<le> bitrate \<and> bitrate \<le> LYRA_MAX_BITRATE)"

definition validateParameters :: "uint32_t \<Rightarrow> uint32_t \<Rightarrow> uint32_t \<Rightarrow> bool" where
  "validateParameters sampleRate channels bitrate =
     (if channels \<noteq> 1 then False
      else if sampleRate \<noteq> 16000 \<and> sampleRate \<noteq> 32000 \<and> sampleRate \<noteq> 48000 then False
      else if \<not> isValidBitrate bitrate then False
      else True)"

definition LyraCodec_initialize ::
  "LyraCodec \<Rightarrow> uint32_t \<Rightarrow> uint32_t \<Rightarrow> uint32_t \<Rightarrow> bool \<times> LyraCodec" where
  "LyraCodec_initialize c sampleRate channels bitrate =
     (if lc_initialized c then (False, c)
      else if \<not> validateParameters sampleRate channels bitrate then (False, c)
      else (True, c\<lparr>lc_sampleRate := sampleRate, lc_channels := channels,
                       lc_currentBitrate := bitrate,
                       lc_frameSize := (sampleRate * LYRA_FRAME_SIZE_MS) div 1000,
                       lc_initialized := True\<rparr>))"

definition getExpectedInputSize :: "LyraCodec \<Rightarrow> nat" where
  "getExpectedInputSize c = unat (lc_frameSize c * lc_channels c)"

definition validateInputSize :: "LyraCodec \<Rightarrow> nat \<Rightarrow> bool" where
  "validateInputSize c sampleCount = (sampleCount = getExpectedInputSize c)"

text \<open>
  \<open>encodeRaw\<close> copies the object representation of the samples; \<open>decodeRaw\<close> refuses
  an odd number of bytes with an empty vector and otherwise copies the bytes into
  \<open>dataSize / 2\<close> samples.
\<close>

definition encodeRaw :: "byte_order \<Rightarrow> int16_t list \<Rightarrow> uint8_t list" where
  "encodeRaw h audioData = concat (map (bytes_of_int16 h) audioData)"

fun samples_of_bytes :: "byte_order \<Rightarrow> uint8_t list \<Rightarrow> int16_t list" where
  "samples_of_bytes h (b0 # b1 # rest) = int16_of_byte_pair h b0 b1 # samples_of_bytes h rest"
| "samples_of_bytes h short = []"

definition decodeRaw :: "byte_order \<Rightarrow> uint8_t list \<Rightarrow> int16_t list" where
  "decodeRaw h encodedData =
     (if length encodedData mod 2 \<noteq> 0 then [] else samples_of_bytes h encodedData)"

text \<open>
  \<open>encode\<close>. The reading of the steady clock that becomes the packet's timestamp is an
  argument. The null test on the sample pointer and the test \<open>sampleCount == 0\<close> are
  the one test for the empty list.
\<close>

definition LyraCodec_encode ::
  "byte_order \<Rightarrow> LyraCodec \<Rightarrow> uint64_t \<Rightarrow> int16_t list \<Rightarrow> EncodedPacket option \<times> LyraCodec" where
  "LyraCodec_encode h c now audioData =
     (if \<not> lc_initialized c then (None, c\<lparr>encodingErrors := encodingErrors c + 1\<rparr>)
      else if audioData = [] then (None, c\<lparr>encodingErrors := encodingErrors c + 1\<rparr>)
      else if \<not> validateInputSize c (length audioData)
        then (None, c\<lparr>encodingErrors := encodingErrors c + 1\<rparr>)
      else
        let encodedData = encodeRaw h audioData
        in if encodedData = [] then (None, c\<lparr>encodingErrors := encodingErrors c + 1\<rparr>)
           else (Some ((EncodedPacket_ctor encodedData (lc_nextSequenceNumber c) (lc_currentBitrate c))
                         \<lparr>ep_timestamp := now\<rparr>),
                 c\<lparr>lc_nextSequenceNumber := lc_nextSequenceNumber c + 1,
                   encodedFrames := encodedFrames c + 1\<rparr>))"

definition LyraCodec_decode ::
  "byte_order \<Rightarrow> LyraCodec \<Rightarrow> uint8_t list \<Rightarrow> int16_t list option \<times> LyraCodec" where
  "LyraCodec_decode h c encodedData =
     (if \<not> lc_initialized c then (None, c\<lparr>decodingErrors := decodingErrors c + 1\<rparr>)
      else if encodedData = [] then (None, c\<lparr>decodingErrors := decodingErrors c + 1\<rparr>)
      else
        let decodedAudio = decodeRaw h encodedData
        in if decodedAudio = [] then (None, c\<lparr>decodingErrors := decodingErrors c + 1\<rparr>)
           else (Some decodedAudio, c\<lparr>decodedFrames := decodedFrames c + 1\<rparr>))"

definition LyraCodec_setBitrate :: "LyraCodec \<Rightarrow> uint32_t \<Rightarrow> bool \<times> LyraCodec" where
  "LyraCodec_setBitrate c bitrate =
     (if \<not> isValidBitrate bitrate then (False, c)
      else (True, c\<lparr>lc_currentBitrate := bitrate\<rparr>))"

text \<open>
  An encoder session: the calls made on one codec object from its construction on, and
  the packets the \<open>encode\<close> calls emitted, in the order of emission.
\<close>

datatype codec_call =
    Initialize uint32_t uint32_t uint32_t
  | Encode uint64_t "int16_t list"
  | Decode "uint8_t list"
  | SetBitrate uint32_t

fun codec_step ::
  "byte_order \<Rightarrow> LyraCodec \<times> EncodedPacket list \<Rightarrow> codec_call \<Rightarrow> LyraCodec \<times> EncodedPacket list" where
  "codec_step h (c, emitted) (Initialize sampleRate channels bitrate) =
     (snd (LyraCodec_initialize c sampleRate channels bitrate), emitted)"
| "codec_step h (c, emitted) (Encode now audioData) =
     (case LyraCodec_encode h c now audioData of
        (None, c') \<Rightarrow> (c', emitted)
      | (Some packet, c') \<Rightarrow> (c', emitted @ [packet]))"
| "codec_step h (c, emitted) (Decode encodedData) = (snd (LyraCodec_decode h c encodedData), emitted)"
| "codec_step h (c, emitted) (SetBitrate bitrate) = (snd (LyraCodec_setBitrate c bitrate), emitted)"

definition codec_session :: "byte_order \<Rightarrow> codec_call list \<Rightarrow> EncodedPacket list" where
  "codec_session h calls = snd (foldl (codec_step h) (LyraCodec_ctor, []) calls)"

section \<open>Single-precision arithmetic\<close>

text \<open>
  A finite \<open>float\<close> is the rational number it denotes. An arithmetic operation computes
  the exact result and rounds it to the nearest value with a 24-bit significand, ties to
  the even significand, with the subnormal spacing \<open>2^-149\<close> below \<open>2^-126\<close>: the
  default rounding of IEEE 754 binary32, every operation evaluated in \<open>float\<close> and not
  fused with its neighbour. Infinities, not-a-number values, the sign of zero and overflow
  beyond the largest finite \<open>float\<close> are not modelled. A division by zero, which the
  sources guard against, is 0 here.
\<close>

type_synonym float32 = rat

definition pow2 :: "int \<Rightarrow> rat" where
  "pow2 e = (if 0 \<le> e then 2 ^ nat e else 1 / 2 ^ nat (- e))"

definition round_half_even :: "rat \<Rightarrow> int" where
  "round_half_even y =
     (let f = \<lfloor>y\<rfloor>; r = y - of_int f
      in if r < 1 / 2 then f
         else if 1 / 2 < r then f + 1
         else if even f then f else f + 1)"

text \<open>
  \<open>float_exponent x\<close> is the \<open>e\<close> with \<open>2^e \<le> |x| < 2^(e+1)\<close>, for \<open>x\<close> other than 0: with
  \<open>|x| = p / q\<close> and \<open>d\<close> the difference of the bit lengths of \<open>p\<close> and \<open>q\<close>, it is
  \<open>d\<close> or \<open>d - 1\<close>.
\<close>

definition float_exponent :: "rat \<Rightarrow> int" where
  "float_exponent x =
     (case quotient_of \<bar>x\<bar> of
        (p, q) \<Rightarrow>
          let d = bitlen p - bitlen q
          in if q * 2 ^ nat d \<le> p * 2 ^ nat (- d) then d else d - 1)"

definition float_round :: "rat \<Rightarrow> float32" where
  "float_round x =
     (if x = 0 then 0
      else let ulp = pow2 (max (float_exponent x - 23) (- 149))
           in of_int (round_half_even (x / ulp)) * ulp)"

definition fadd :: "float32 \<Rightarrow> float32 \<Rightarrow> float32" where
  "fadd a b = float_round (a + b)"

definition fsub :: "float32 \<Rightarrow> float32 \<Rightarrow> float32" where
  "fsub a b = float_round (a - b)"

definition fmul :: "float32 \<Rightarrow> float32 \<Rightarrow> float32" where
  "fmul a b = float_round (a * b)"

definition fdiv :: "float32 \<Rightarrow> float32 \<Rightarrow> float32" where
  "fdiv a b = float_round (a / b)"

text \<open>
  Conversions. An integer becomes the nearest \<open>float\<close>. A \<open>float\<close> becomes an integer
  by truncation towards zero; the result is reduced to the width of the integer type
  (C++ leaves a conversion undefined when the truncated value is out of range; the
  conversions to \<open>int16_t\<close> below follow a clamp and are always in range).
\<close>

definition float_of_uint32 :: "uint32_t \<Rightarrow> float32" where
  "float_of_uint32 w = float_round (of_nat (unat w))"

definition float_of_int16 :: "int16_t \<Rightarrow> float32" where
  "float_of_int16 w = float_round (of_int (sint w))"

definition trunc_toward_zero :: "rat \<Rightarrow> int" where
  "trunc_toward_zero x = (if 0 \<le> x then \<lfloor>x\<rfloor> else \<lceil>x\<rceil>)"

definition uint32_of_float :: "float32 \<Rightarrow> uint32_t" where
  "uint32_of_float x = word_of_int (trunc_toward_zero x)"

definition int16_of_float :: "float32 \<Rightarrow> int16_t" where
  "int16_of_float x = word_of_int (trunc_toward_zero x)"

section \<open>BitrateCalculator (BitrateCalculator.h, BitrateCalculator.cpp)\<close>

record NetworkMetrics =
  packetLossRate :: float32
  averageLatency :: uint32_t
  jitter :: uint32_t
  bandwidth :: float32

definition NetworkMetrics_ctor :: NetworkMetrics where
  "NetworkMetrics_ctor = \<lparr>packetLossRate = 0, averageLatency = 0, jitter = 0, bandwidth = 0\<rparr>"

record AudioMetrics =
  signalToNoiseRatio :: float32
  averageVolume :: float32
  speechDetected :: bool
  compressionRatio :: float32

definition AudioMetrics_ctor :: AudioMetrics where
  "AudioMetrics_ctor =
     \<lparr>signalToNoiseRatio = 0, averageVolume = 0, speechDetected = False, compressionRatio = 1\<rparr>"

datatype QualityMode = POWER_SAVE | BALANCED | HIGH_QUALITY | ADAPTIVE

text \<open>
  \<open>class BitrateCalculator\<close>. The time points (\<open>bitrateTimestamps_\<close>, \<open>lastUpdateTime_\<close>,
  \<open>startTime_\<close>) are left out: they are written by \<open>initialize\<close> and \<open>addToHistory\<close> and
  read only by \<open>cleanupHistory\<close>, which nothing calls.

  \<open>metricsMutex_\<close> is a \<open>std::mutex\<close>, which is not recursive. The calls of the model
  are made one after the other, so a \<open>lock_guard\<close> finds the mutex free and frees it
  again at the end of its scope, with one exception: \<open>updateNetworkMetrics\<close> and
  \<open>updateAudioMetrics\<close> call \<open>calculateOptimalBitrate()\<close> while they hold the mutex, and
  that function locks it again when the calculator is initialized. Locking a
  \<open>std::mutex\<close> that the calling thread holds is undefined in C++; on the platform the
  program is written for (Linux, where it is a normal pthread mutex) the thread blocks for
  ever. The model follows the platform: such a call never returns, the mutex stays locked
  (\<open>metricsMutex_locked\<close>), and every later call blocks where it reaches a \<open>lock_guard\<close>.
  A member function that takes the mutex gives, with the state it leaves behind, whether
  it returned.
\<close>

datatype call_end = Returned | NeverReturns

record BitrateCalculator =
  bc_initialized :: bool
  bc_currentBitrate :: uint32_t
  recommendedBitrate :: uint32_t
  targetQuality :: float32
  adaptationSpeed :: float32
  stabilityThreshold :: float32
  qualityMode :: QualityMode
  autoAdaptationEnabled :: bool
  networkMetrics :: NetworkMetrics
  audioMetrics :: AudioMetrics
  bitrateHistory :: "uint32_t list"
  maxHistorySize :: nat
  bitrateChanges :: uint64_t
  metricsMutex_locked :: bool

definition BitrateCalculator_ctor :: BitrateCalculator where
  "BitrateCalculator_ctor =
     \<lparr>bc_initialized = False, bc_currentBitrate = LYRA_DEFAULT_BITRATE,
      recommendedBitrate = LYRA_DEFAULT_BITRATE,
      targetQuality = float_round (5 / 10), adaptationSpeed = float_round (3 / 10),
      stabilityThreshold = float_round (1 / 10),
      qualityMode = ADAPTIVE, autoAdaptationEnabled = True,
      networkMetrics = NetworkMetrics_ctor, audioMetrics = AudioMetrics_ctor,
      bitrateHistory = [], maxHistorySize = 100, bitrateChanges = 0,
      metricsMutex_locked = False\<rparr>"

definition clampBitrate :: "uint32_t \<Rightarrow> uint32_t" where
  "clampBitrate bitrate = max LYRA_MIN_BITRATE (min LYRA_MAX_BITRATE bitrate)"

definition addToHistory :: "BitrateCalculator \<Rightarrow> uint32_t \<Rightarrow> BitrateCalculator" where
  "addToHistory bc bitrate =
     (let pushed = bitrateHistory bc @ [bitrate]
      in bc\<lparr>bitrateHistory := (if maxHistorySize bc < length pushed then tl pushed else pushed)\<rparr>)"

definition BitrateCalculator_initialize :: "BitrateCalculator \<Rightarrow> uint32_t \<Rightarrow> bool \<times> BitrateCalculator" where
  "BitrateCalculator_initialize bc initialBitrate =
     (if bc_initialized bc then (True, bc)
      else
        let bc1 = bc\<lparr>bc_currentBitrate := clampBitrate initialBitrate\<rparr>;
            bc2 = bc1\<lparr>recommendedBitrate := bc_currentBitrate bc1\<rparr>;
            bc3 = addToHistory bc2 (bc_currentBitrate bc2)
        in (True, bc3\<lparr>bc_initialized := True\<rparr>))"

definition BitrateCalculator_shutdown :: "BitrateCalculator \<Rightarrow> BitrateCalculator" where
  "BitrateCalculator_shutdown bc =
     (if \<not> bc_initialized bc then bc
      else bc\<lparr>bc_initialized := False, bitrateHistory := []\<rparr>)"

definition calculateNetworkBasedBitrate :: "NetworkMetrics \<Rightarrow> uint32_t" where
  "calculateNetworkBasedBitrate metrics =
     (let base0 = LYRA_DEFAULT_BITRATE;
          base1 = (if float_round (5 / 100) < packetLossRate metrics then LYRA_MIN_BITRATE
                   else if float_round (2 / 100) < packetLossRate metrics
                     then (LYRA_MIN_BITRATE + LYRA_DEFAULT_BITRATE) div 2
                   else base0);
          base2 = (if 500 < averageLatency metrics then min base1 LYRA_MIN_BITRATE
                   else if 200 < averageLatency metrics
                     then min base1 ((LYRA_MIN_BITRATE + LYRA_DEFAULT_BITRATE) div 2)
                   else base1)
      in if 0 < bandwidth metrics
         then min base2
                (uint32_of_float (fmul (fmul (bandwidth metrics) 1000) (float_round (8 / 10))))
         else base2)"

definition calculateAudioBasedBitrate :: "AudioMetrics \<Rightarrow> uint32_t" where
  "calculateAudioBasedBitrate metrics =
     (if \<not> speechDetected metrics then LYRA_MIN_BITRATE
      else
        let base0 = LYRA_DEFAULT_BITRATE;
            base1 = (if float_round (7 / 10) < averageVolume metrics then LYRA_MAX_BITRATE
                     else if averageVolume metrics < float_round (1 / 10) then LYRA_MIN_BITRATE
                     else base0)
        in if 20 < signalToNoiseRatio metrics then max base1 LYRA_DEFAULT_BITRATE
           else if signalToNoiseRatio metrics < 10 then LYRA_MIN_BITRATE
           else base1)"

definition applyQualityMode :: "BitrateCalculator \<Rightarrow> uint32_t \<Rightarrow> uint32_t" where
  "applyQualityMode bc baseBitrate =
     (case qualityMode bc of
        POWER_SAVE \<Rightarrow> LYRA_MIN_BITRATE
      | BALANCED \<Rightarrow> min baseBitrate LYRA_DEFAULT_BITRATE
      | HIGH_QUALITY \<Rightarrow> max baseBitrate LYRA_MAX_BITRATE
      | ADAPTIVE \<Rightarrow>
          let minBitrate = LYRA_MIN_BITRATE;
              maxBitrate = LYRA_MAX_BITRATE;
              targetBitrate =
                uint32_of_float
                  (fadd (float_of_uint32 minBitrate)
                     (fmul (float_of_uint32 (maxBitrate - minBitrate)) (targetQuality bc)))
          in min baseBitrate targetBitrate)"

definition smoothBitrateTransition :: "BitrateCalculator \<Rightarrow> uint32_t \<Rightarrow> uint32_t" where
  "smoothBitrateTransition bc newBitrate =
     (let currentBitrate = bc_currentBitrate bc;
          diff = fsub (float_of_uint32 newBitrate) (float_of_uint32 currentBitrate);
          smoothedDiff = fmul diff (adaptationSpeed bc)
      in uint32_of_float (fadd (float_of_uint32 currentBitrate) smoothedDiff))"

definition shouldUpdateBitrate :: "BitrateCalculator \<Rightarrow> uint32_t \<Rightarrow> bool" where
  "shouldUpdateBitrate bc newBitrate =
     (let currentBitrate = bc_currentBitrate bc;
          changeRatio =
            fdiv \<bar>fsub (float_of_uint32 newBitrate) (float_of_uint32 currentBitrate)\<bar>
              (float_of_uint32 currentBitrate)
      in stabilityThreshold bc \<le> changeRatio)"

text \<open>
  \<open>calculateOptimalBitrate(network, audio)\<close>, which takes no lock, and the overload
  without arguments, which returns the default for a calculator that is not initialized
  and otherwise takes the mutex first: it has no result (\<open>None\<close>) when the mutex is locked.
\<close>

definition calculateOptimalBitrate_of ::
  "BitrateCalculator \<Rightarrow> NetworkMetrics \<Rightarrow> AudioMetrics \<Rightarrow> uint32_t" where
  "calculateOptimalBitrate_of bc network audio =
     (let networkBitrate = calculateNetworkBasedBitrate network;
          audioBitrate = calculateAudioBasedBitrate audio;
          networkWeight = float_round (6 / 10);
          audioWeight = float_round (4 / 10);
          combinedBitrate =
            uint32_of_float
              (fadd (fmul (float_of_uint32 networkBitrate) networkWeight)
                 (fmul (float_of_uint32 audioBitrate) audioWeight));
          adjustedBitrate = applyQualityMode bc combinedBitrate;
          finalBitrate = smoothBitrateTransition bc adjustedBitrate
      in clampBitrate finalBitrate)"

definition calculateOptimalBitrate :: "BitrateCalculator \<Rightarrow> uint32_t option" where
  "calculateOptimalBitrate bc =
     (if \<not> bc_initialized bc then Some LYRA_DEFAULT_BITRATE
      else if metricsMutex_locked bc then None
      else Some (calculateOptimalBitrate_of bc (networkMetrics bc) (audioMetrics bc)))"

text \<open>
  The commit of a new bitrate, as \<open>updateNetworkMetrics\<close>, \<open>updateAudioMetrics\<close> and
  \<open>setQualityMode\<close> each spell it out: store the current and the recommended bitrate, add
  to the history, count the change.
\<close>

definition commitBitrate :: "BitrateCalculator \<Rightarrow> uint32_t \<Rightarrow> BitrateCalculator" where
  "commitBitrate bc newBitrate =
     (let bc1 = bc\<lparr>bc_currentBitrate := newBitrate, recommendedBitrate := newBitrate\<rparr>;
          bc2 = addToHistory bc1 newBitrate
      in bc2\<lparr>bitrateChanges := bitrateChanges bc2 + 1\<rparr>)"

text \<open>
  \<open>updateNetworkMetrics\<close> and \<open>updateAudioMetrics\<close>: the \<open>lock_guard\<close> first, then the
  store of the metrics, then, with adaptation enabled, the call of
  \<open>calculateOptimalBitrate()\<close> with the mutex held.
\<close>

definition updateNetworkMetrics ::
  "BitrateCalculator \<Rightarrow> NetworkMetrics \<Rightarrow> call_end \<times> BitrateCalculator" where
  "updateNetworkMetrics bc metrics =
     (if metricsMutex_locked bc then (NeverReturns, bc)
      else
        let bc1 = bc\<lparr>metricsMutex_locked := True, networkMetrics := metrics\<rparr>
        in if autoAdaptationEnabled bc1
           then (case calculateOptimalBitrate bc1 of
                   None \<Rightarrow> (NeverReturns, bc1)
                 | Some newBitrate \<Rightarrow>
                     (Returned,
                      (if shouldUpdateBitrate bc1 newBitrate then commitBitrate bc1 newBitrate else bc1)
                        \<lparr>metricsMutex_locked := False\<rparr>))
           else (Returned, bc1\<lparr>metricsMutex_locked := False\<rparr>))"

definition updateAudioMetrics ::
  "BitrateCalculator \<Rightarrow> AudioMetrics \<Rightarrow> call_end \<times> BitrateCalculator" where
  "updateAudioMetrics bc metrics =
     (if metricsMutex_locked bc then (NeverReturns, bc)
      else
        let bc1 = bc\<lparr>metricsMutex_locked := True, audioMetrics := metrics\<rparr>
        in if autoAdaptationEnabled bc1
           then (case calculateOptimalBitrate bc1 of
                   None \<Rightarrow> (NeverReturns, bc1)
                 | Some newBitrate \<Rightarrow>
                     (Returned,
                      (if shouldUpdateBitrate bc1 newBitrate then commitBitrate bc1 newBitrate else bc1)
                        \<lparr>metricsMutex_locked := False\<rparr>))
           else (Returned, bc1\<lparr>metricsMutex_locked := False\<rparr>))"

text \<open>
  The three report functions. \<open>reportPacketLoss\<close> returns before anything else when
  \<open>totalPackets\<close> is 0 and computes the rate before it takes the mutex.
\<close>

definition reportPacketLoss ::
  "BitrateCalculator \<Rightarrow> uint32_t \<Rightarrow> uint32_t \<Rightarrow> call_end \<times> BitrateCalculator" where
  "reportPacketLoss bc totalCount lostCount =
     (if totalCount = 0 then (Returned, bc)
      else
        let lossRate = fdiv (float_of_uint32 lostCount) (float_of_uint32 totalCount)
        in if metricsMutex_locked bc then (NeverReturns, bc)
           else (Returned, bc\<lparr>networkMetrics := (networkMetrics bc)\<lparr>packetLossRate := lossRate\<rparr>\<rparr>))"

definition reportLatency :: "BitrateCalculator \<Rightarrow> uint32_t \<Rightarrow> call_end \<times> BitrateCalculator" where
  "reportLatency bc latencyMs =
     (if metricsMutex_locked bc then (NeverReturns, bc)
      else
        let alpha = float_round (3 / 10);
            smoothed =
              uint32_of_float
                (fadd (fmul alpha (float_of_uint32 latencyMs))
                   (fmul (fsub 1 alpha) (float_of_uint32 (averageLatency (networkMetrics bc)))))
        in (Returned, bc\<lparr>networkMetrics := (networkMetrics bc)\<lparr>averageLatency := smoothed\<rparr>\<rparr>))"

definition reportBandwidth :: "BitrateCalculator \<Rightarrow> float32 \<Rightarrow> call_end \<times> BitrateCalculator" where
  "reportBandwidth bc bandwidthKbps =
     (if metricsMutex_locked bc then (NeverReturns, bc)
      else (Returned, bc\<lparr>networkMetrics := (networkMetrics bc)\<lparr>bandwidth := bandwidthKbps\<rparr>\<rparr>))"

definition setTargetQuality :: "BitrateCalculator \<Rightarrow> float32 \<Rightarrow> BitrateCalculator" where
  "setTargetQuality bc quality = bc\<lparr>targetQuality := max 0 (min 1 quality)\<rparr>"

definition setAdaptationSpeed :: "BitrateCalculator \<Rightarrow> float32 \<Rightarrow> BitrateCalculator" where
  "setAdaptationSpeed bc speed = bc\<lparr>adaptationSpeed := max 0 (min 1 speed)\<rparr>"

definition setStabilityThreshold :: "BitrateCalculator \<Rightarrow> float32 \<Rightarrow> BitrateCalculator" where
  "setStabilityThreshold bc threshold = bc\<lparr>stabilityThreshold := max 0 (min 1 threshold)\<rparr>"

definition enableAutoAdaptation :: "BitrateCalculator \<Rightarrow> bool \<Rightarrow> BitrateCalculator" where
  "enableAutoAdaptation bc enable = bc\<lparr>autoAdaptationEnabled := enable\<rparr>"

text \<open>
  \<open>setQualityMode\<close> holds no lock when it calls \<open>calculateOptimalBitrate()\<close>, and commits
  whenever the result differs from the current bitrate.
\<close>

definition setQualityMode :: "BitrateCalculator \<Rightarrow> QualityMode \<Rightarrow> call_end \<times> BitrateCalculator" where
  "setQualityMode bc mode =
     (let bc1 = bc\<lparr>qualityMode := mode\<rparr>
      in if autoAdaptationEnabled bc1
         then (case calculateOptimalBitrate bc1 of
                 None \<Rightarrow> (NeverReturns, bc1)
               | Some newBitrate \<Rightarrow>
                   (Returned,
                    if newBitrate \<noteq> bc_currentBitrate bc1 then commitBitrate bc1 newBitrate else bc1))
         else (Returned, bc1))"

text \<open>
  The calls that can be made on a bitrate calculator, and a sequence of them: the state
  of the object after each call, whether the call returned to its caller or blocked.
\<close>

datatype bitrate_call =
    CallInitialize uint32_t
  | CallShutdown
  | UpdateNetworkMetrics NetworkMetrics
  | UpdateAudioMetrics AudioMetrics
  | ReportPacketLoss uint32_t uint32_t
  | ReportLatency uint32_t
  | ReportBandwidth float32
  | SetTargetQuality float32
  | SetAdaptationSpeed float32
  | SetStabilityThreshold float32
  | EnableAutoAdaptation bool
  | SetQualityMode QualityMode

fun bitrate_step :: "BitrateCalculator \<Rightarrow> bitrate_call \<Rightarrow> BitrateCalculator" where
  "bitrate_step bc (CallInitialize initialBitrate) = snd (BitrateCalculator_initialize bc initialBitrate)"
| "bitrate_step bc CallShutdown = BitrateCalculator_shutdown bc"
| "bitrate_step bc (UpdateNetworkMetrics metrics) = snd (updateNetworkMetrics bc metrics)"
| "bitrate_step bc (UpdateAudioMetrics metrics) = snd (updateAudioMetrics bc metrics)"
| "bitrate_step bc (ReportPacketLoss totalCount lostCount) = snd (reportPacketLoss bc totalCount lostCount)"
| "bitrate_step bc (ReportLatency latencyMs) = snd (reportLatency bc latencyMs)"
| "bitrate_step bc (ReportBandwidth bandwidthKbps) = snd (reportBandwidth bc bandwidthKbps)"
| "bitrate_step bc (SetTargetQuality quality) = setTargetQuality bc quality"
| "bitrate_step bc (SetAdaptationSpeed speed) = setAdaptationSpeed bc speed"
| "bitrate_step bc (SetStabilityThreshold threshold) = setStabilityThreshold bc threshold"
| "bitrate_step bc (EnableAutoAdaptation enable) = enableAutoAdaptation bc enable"
| "bitrate_step bc (SetQualityMode mode) = snd (setQualityMode bc mode)"

definition bitrate_run :: "BitrateCalculator \<Rightarrow> bitrate_call list \<Rightarrow> BitrateCalculator" where
  "bitrate_run bc calls = foldl bitrate_step bc calls"

section \<open>AudioPreprocessor (AudioPreprocessor.h, AudioPreprocessor.cpp)\<close>

record PreprocessingConfig =
  enableNoiseSupression :: bool
  enableCodec :: bool
  enableBitrateAdaptation :: bool
  enableVAD :: bool
  enableAGC :: bool
  enableEcho :: bool
  noiseSuppressionLevel :: float32
  vadThreshold :: float32
  agcTargetLevel :: float32
  targetBitrate :: uint32_t

definition PreprocessingConfig_ctor :: PreprocessingConfig where
  "PreprocessingConfig_ctor =
     \<lparr>enableNoiseSupression = True, enableCodec = True, enableBitrateAdaptation = True,
      enableVAD = True, enableAGC = True, enableEcho = False,
      noiseSuppressionLevel = float_round (8 / 10), vadThreshold = float_round (5 / 10),
      agcTargetLevel = float_round (7 / 10), targetBitrate = LYRA_DEFAULT_BITRATE\<rparr>"

text \<open>
  \<open>class AudioPreprocessor\<close>: the fields that the encode and decode paths and the
  output chain read or write. The noise suppressor, the statistics, the gain and timing
  histories and the callbacks belong to the input chain and the reporting functions. Of
  the work vectors only the length matters here: \<open>tempBuffer_size\<close> is the number of
  elements the constructor gives \<open>tempBuffer_\<close>.
\<close>

record AudioPreprocessor =
  pp_initialized :: bool
  pp_config :: PreprocessingConfig
  pp_codec :: "LyraCodec option"
  pp_bitrateCalculator :: "BitrateCalculator option"
  currentGain :: float32
  targetGain :: float32

definition tempBuffer_size :: nat where
  "tempBuffer_size = FRAMES_PER_BUFFER"

definition AudioPreprocessor_ctor :: AudioPreprocessor where
  "AudioPreprocessor_ctor =
     \<lparr>pp_initialized = False, pp_config = PreprocessingConfig_ctor, pp_codec = None,
      pp_bitrateCalculator = None, currentGain = 1, targetGain = 1\<rparr>"

definition validateConfig :: "PreprocessingConfig \<Rightarrow> bool" where
  "validateConfig config =
     (if noiseSuppressionLevel config < 0 \<or> 1 < noiseSuppressionLevel config then False
      else if vadThreshold config < 0 \<or> 1 < vadThreshold config then False
      else if agcTargetLevel config < float_round (1 / 10) \<or> 2 < agcTargetLevel config then False
      else if targetBitrate config < LYRA_MIN_BITRATE \<or> LYRA_MAX_BITRATE < targetBitrate config
        then False
      else True)"

definition validateSampleCount :: "nat \<Rightarrow> bool" where
  "validateSampleCount sampleCount = (0 < sampleCount \<and> sampleCount \<le> FRAMES_PER_BUFFER * 4)"

text \<open>
  \<open>initializeComponents\<close> and \<open>shutdownComponents\<close>. Whether the noise suppressor
  initializes is an argument (\<open>noiseOk\<close>); the codec is created only when the
  configuration enables it, the bitrate calculator only when adaptation is enabled.
\<close>

definition shutdownComponents :: "AudioPreprocessor \<Rightarrow> AudioPreprocessor" where
  "shutdownComponents pp = pp\<lparr>pp_codec := None, pp_bitrateCalculator := None\<rparr>"

definition initializeComponents :: "bool \<Rightarrow> AudioPreprocessor \<Rightarrow> bool \<times> AudioPreprocessor" where
  "initializeComponents noiseOk pp =
     (if enableNoiseSupression (pp_config pp) \<and> \<not> noiseOk then (False, pp)
      else
        case (if enableCodec (pp_config pp)
              then (case LyraCodec_initialize LyraCodec_ctor LYRA_SAMPLE_RATE CHANNELS
                           (targetBitrate (pp_config pp)) of
                      (ok, c) \<Rightarrow> (ok, pp\<lparr>pp_codec := Some c\<rparr>))
              else (True, pp)) of
          (False, pp1) \<Rightarrow> (False, pp1)
        | (True, pp1) \<Rightarrow>
            if enableBitrateAdaptation (pp_config pp1)
            then (case BitrateCalculator_initialize BitrateCalculator_ctor
                         (targetBitrate (pp_config pp1)) of
                    (ok, bc) \<Rightarrow> (ok, pp1\<lparr>pp_bitrateCalculator := Some bc\<rparr>))
            else (True, pp1))"

definition AudioPreprocessor_initialize ::
  "bool \<Rightarrow> AudioPreprocessor \<Rightarrow> PreprocessingConfig \<Rightarrow> bool \<times> AudioPreprocessor" where
  "AudioPreprocessor_initialize noiseOk pp config =
     (if pp_initialized pp then (False, pp)
      else if \<not> validateConfig config then (False, pp)
      else
        let pp1 = pp\<lparr>pp_config := config, currentGain := 1, targetGain := agcTargetLevel config\<rparr>
        in case initializeComponents noiseOk pp1 of
             (False, pp2) \<Rightarrow> (False, shutdownComponents pp2)
           | (True, pp2) \<Rightarrow> (True, pp2\<lparr>pp_initialized := True\<rparr>))"

definition updateConfig :: "AudioPreprocessor \<Rightarrow> PreprocessingConfig \<Rightarrow> AudioPreprocessor" where
  "updateConfig pp config =
     (if \<not> validateConfig config then pp
      else
        let pp1 = pp\<lparr>pp_config := config\<rparr>;
            pp2 = (case pp_codec pp1 of
                     None \<Rightarrow> pp1
                   | Some c \<Rightarrow>
                       pp1\<lparr>pp_codec := Some (snd (LyraCodec_setBitrate c (targetBitrate config)))\<rparr>)
        in pp2\<lparr>targetGain := agcTargetLevel config\<rparr>)"

text \<open>
  The output chain on 16-bit samples: \<open>int16ToFloat\<close>, \<open>processAudioChain\<close> with
  \<open>isInput = false\<close>, \<open>floatToInt16\<close>. \<open>processOutput\<close> converts into \<open>tempBuffer_\<close>,
  which holds \<open>tempBuffer_size\<close> floats, while \<open>validateSampleCount\<close> admits four times as
  many samples: for more samples than \<open>tempBuffer_\<close> holds the source writes past its
  end, and the model gives no result (\<open>None\<close>).
\<close>

definition int16ToFloat :: "int16_t list \<Rightarrow> float32 list" where
  "int16ToFloat input = map (\<lambda>x. fmul (float_of_int16 x) (fdiv 1 32768)) input"

definition floatToInt16 :: "float32 list \<Rightarrow> int16_t list" where
  "floatToInt16 input = map (\<lambda>x. int16_of_float (fmul (max (- 1) (min 1 x)) 32767)) input"

definition processAudioChain_output :: "AudioPreprocessor \<Rightarrow> float32 list \<Rightarrow> bool \<times> float32 list" where
  "processAudioChain_output pp audioData =
     (if audioData = [] then (False, audioData)
      else if enableAGC (pp_config pp) then (True, map (\<lambda>x. fmul x (currentGain pp)) audioData)
      else (True, audioData))"

definition processOutput :: "AudioPreprocessor \<Rightarrow> int16_t list \<Rightarrow> (bool \<times> int16_t list) option" where
  "processOutput pp audioData =
     (if \<not> pp_initialized pp then Some (False, audioData)
      else if \<not> validateSampleCount (length audioData) then Some (False, audioData)
      else if tempBuffer_size < length audioData then None
      else
        case processAudioChain_output pp (int16ToFloat audioData) of
          (True, processed) \<Rightarrow> Some (True, floatToInt16 processed)
        | (False, processed) \<Rightarrow> Some (False, audioData))"

text \<open>
  \<open>encode\<close>. The test \<open>!initialized_ || !codec_\<close> is written as its two tests in
  order. With the codec disabled the packet is the object representation of the
  samples, with sequence number 0 and bitrate 0. With the codec enabled the samples go
  through \<open>processInput\<close> (gain control with a square root, the noise suppressor, voice
  activity detection) and the resampler before \<open>LyraCodec::encode\<close>; these two steps are
  the arguments \<open>inputChain\<close> (\<open>None\<close> when \<open>processInput\<close> returns false) and
  \<open>resampleTo16kHz\<close>, and \<open>now\<close> is the clock reading of the codec.
\<close>

definition AudioPreprocessor_encode ::
  "(AudioPreprocessor \<Rightarrow> int16_t list \<Rightarrow> int16_t list option \<times> AudioPreprocessor)
   \<Rightarrow> (int16_t list \<Rightarrow> int16_t list)
   \<Rightarrow> byte_order \<Rightarrow> AudioPreprocessor \<Rightarrow> uint64_t \<Rightarrow> int16_t list
   \<Rightarrow> EncodedPacket option \<times> AudioPreprocessor" where
  "AudioPreprocessor_encode inputChain resampleTo16kHz h pp now audioData =
     (if \<not> pp_initialized pp then (None, pp)
      else if pp_codec pp = None then (None, pp)
      else if \<not> enableCodec (pp_config pp)
        then (Some (EncodedPacket_ctor (encodeRaw h audioData) 0 0), pp)
      else
        case inputChain pp audioData of
          (None, pp1) \<Rightarrow> (None, pp1)
        | (Some processedData, pp1) \<Rightarrow>
            (case pp_codec pp1 of
               None \<Rightarrow> (None, pp1)
             | Some c \<Rightarrow>
                 (case LyraCodec_encode h c now
                         (if SAMPLE_RATE \<noteq> LYRA_SAMPLE_RATE then resampleTo16kHz processedData
                          else processedData) of
                    (packet, c1) \<Rightarrow> (packet, pp1\<lparr>pp_codec := Some c1\<rparr>))))"

text \<open>
  \<open>decode(const EncodedPacket&)\<close>. \<open>resampleFromLyra\<close> is an argument, as the resampler
  of \<open>encode\<close> is. The outer \<open>option\<close> is \<open>None\<close> where \<open>processOutput\<close> has no result.
\<close>

definition AudioPreprocessor_decode ::
  "(int16_t list \<Rightarrow> int16_t list)
   \<Rightarrow> byte_order \<Rightarrow> AudioPreprocessor \<Rightarrow> EncodedPacket
   \<Rightarrow> (int16_t list option \<times> AudioPreprocessor) option" where
  "AudioPreprocessor_decode resampleFromLyra h pp packet =
     (if \<not> pp_initialized pp then Some (None, pp)
      else if pp_codec pp = None then Some (None, pp)
      else if \<not> enableCodec (pp_config pp)
        then (if length (ep_data packet) mod 2 \<noteq> 0 then Some (None, pp)
              else
                case processOutput pp (samples_of_bytes h (ep_data packet)) of
                  None \<Rightarrow> None
                | Some (True, rawSamples) \<Rightarrow> Some (Some rawSamples, pp)
                | Some (False, rawSamples) \<Rightarrow> Some (None, pp))
      else
        case pp_codec pp of
          None \<Rightarrow> Some (None, pp)
        | Some c \<Rightarrow>
            (case LyraCodec_decode h c (ep_data packet) of
               (None, c1) \<Rightarrow> Some (None, pp\<lparr>pp_codec := Some c1\<rparr>)
             | (Some decoded, c1) \<Rightarrow>
                 let pp1 = pp\<lparr>pp_codec := Some c1\<rparr>;
                     samples = (if SAMPLE_RATE \<noteq> LYRA_SAMPLE_RATE then resampleFromLyra decoded
                                else decoded)
                 in case processOutput pp1 samples of
                      None \<Rightarrow> None
                    | Some (True, processed) \<Rightarrow> Some (Some processed, pp1)
                    | Some (False, processed) \<Rightarrow> Some (None, pp1)))"

text \<open>
  The two ways to a preprocessor whose configuration has the codec disabled: initialized
  with such a configuration, or initialized with the default configuration and then
  reconfigured through \<open>updateConfig\<close>.
\<close>

definition codec_disabled_config :: PreprocessingConfig where
  "codec_disabled_config = PreprocessingConfig_ctor\<lparr>enableCodec := False\<rparr>"

definition initialized_without_codec :: AudioPreprocessor where
  "initialized_without_codec =
     snd (AudioPreprocessor_initialize True AudioPreprocessor_ctor codec_disabled_config)"

definition reconfigured_without_codec :: AudioPreprocessor where
  "reconfigured_without_codec =
     updateConfig (snd (AudioPreprocessor_initialize True AudioPreprocessor_ctor PreprocessingConfig_ctor))
       codec_disabled_config"

section \<open>Scenarios and invariants of the verification\<close>

text \<open>
  A codec initialized with the parameters the preprocessor gives it, a 20 ms frame of
  silence at the codec rate, a short session with failing calls in between, and a session
  of \<open>2^32 + 1\<close> successful \<open>encode\<close> calls.
\<close>

definition fresh_codec :: LyraCodec where
  "fresh_codec = snd (LyraCodec_initialize LyraCodec_ctor 16000 1 6000)"

definition silent_frame :: "int16_t list" where
  "silent_frame = replicate 320 0"

definition short_session :: "codec_call list" where
  "short_session =
     [Initialize 16000 1 6000, Encode 10 silent_frame, Encode 20 [1, 2, 3], SetBitrate 9200,
      Decode [1, 2, 3], Encode 30 silent_frame, Encode 40 silent_frame]"

definition long_session :: "codec_call list" where
  "long_session = Initialize 16000 1 6000 # replicate (2 ^ 32 + 1) (Encode 0 silent_frame)"

text \<open>
  The bitrate controller: the range invariant; a calculator that was initialized at
  3200 bit/s and shut down again (adaptation is still on, the bitrate is still 3200);
  network metrics reporting a packet loss of 10 percent, and audio metrics reporting
  speech; and the state after one update and after repeated updates with the same
  metrics.
\<close>

definition bitrate_in_range :: "BitrateCalculator \<Rightarrow> bool" where
  "bitrate_in_range bc =
     (LYRA_MIN_BITRATE \<le> bc_currentBitrate bc \<and> bc_currentBitrate bc \<le> LYRA_MAX_BITRATE)"






section \<open>Verification: the rounding model on known values\<close>

text \<open>
  The model of single precision reproduces known values: \<open>0.1f\<close> is
  \<open>13421773 / 2^27\<close> and \<open>1.0f / 3.0f\<close> is \<open>11184811 / 2^25\<close>; an integer above \<open>2^24\<close>
  halfway between two neighbours goes to the one with the even significand; a value with
  at most 24 significant bits is kept; below the smallest normal number the spacing is
  \<open>2^-149\<close>. Conversion to an integer truncates towards zero.
\<close>

lemma float_round_examples:
  "float_round (1 / 10) = 13421773 / 134217728"
  "float_round (1 / 3) = 11184811 / 33554432"
  "float_round 16777217 = 16777216"
  "float_round 16777219 = 16777220"
  "float_round (- 16777219) = - 16777220"
  "float_round (32767 / 32768) = 32767 / 32768"
  "float_round (1 / 2 ^ 150) = 0"
  "float_round (3 / 2 ^ 150) = 1 / 2 ^ 148"
  by code_simp+

lemma trunc_toward_zero_examples:
  "trunc_toward_zero (7 / 2) = 3" "trunc_toward_zero (- 7 / 2) = - 3"
  by code_simp+

section \<open>Verification: BufferManager\<close>

lemma pushAudioPacket_full:
  "0 < maxBufferSize bm \<Longrightarrow> maxBufferSize bm \<le> length (inputBuffer bm) \<Longrightarrow>
   pushAudioPacket bm (Some p) =
     (True, bm\<lparr>inputBuffer := tl (inputBuffer bm) @ [p],
               droppedPackets := droppedPackets bm + 1,
               totalPackets := totalPackets bm + 1\<rparr>)"
  by (auto simp: pushAudioPacket_def isBufferFull_def removeOldPackets_def Let_def)

lemma pushAudioPacket_not_full:
  "length (inputBuffer bm) < maxBufferSize bm \<Longrightarrow>
   pushAudioPacket bm (Some p) =
     (True, bm\<lparr>inputBuffer := inputBuffer bm @ [p], totalPackets := totalPackets bm + 1\<rparr>)"
  by (simp add: pushAudioPacket_def isBufferFull_def Let_def)

lemma buffer_step_within_capacity:
  "0 < K \<Longrightarrow> within_capacity K bm \<Longrightarrow> within_capacity K (buffer_step bm c)"
  by (cases c)
     (auto simp: within_capacity_def pushAudioPacket_def popAudioPacket_def pushInputBuffer_def
        getNextOutputPacket_def pushNetworkPacket_def getNextPlaybackPacket_def clearBuffers_def
        isBufferFull_def removeOldPackets_def Let_def
        split: option.splits list.splits)

lemma buffer_run_within_capacity:
  "0 < K \<Longrightarrow> within_capacity K bm \<Longrightarrow> within_capacity K (buffer_run bm calls)"
  unfolding buffer_run_def
  by (induction calls arbitrary: bm) (auto intro: buffer_step_within_capacity)

lemma pushAll_queue:
  "0 < maxBufferSize bm \<Longrightarrow> length (inputBuffer bm) \<le> maxBufferSize bm \<Longrightarrow>
   inputBuffer (pushAll bm ps) =
     drop (length (inputBuffer bm) + length ps - maxBufferSize bm) (inputBuffer bm @ ps)
   \<and> droppedPackets (pushAll bm ps) =
     droppedPackets bm + of_nat (length (inputBuffer bm) + length ps - maxBufferSize bm)
   \<and> totalPackets (pushAll bm ps) = totalPackets bm + of_nat (length ps)
   \<and> maxBufferSize (pushAll bm ps) = maxBufferSize bm
   \<and> outputBuffer (pushAll bm ps) = outputBuffer bm"
proof (induction ps arbitrary: bm)
  case Nil
  then show ?case by simp
next
  case (Cons p ps)
  show ?case
  proof (cases "length (inputBuffer bm) < maxBufferSize bm")
    case True
    let ?bm = "bm\<lparr>inputBuffer := inputBuffer bm @ [p], totalPackets := totalPackets bm + 1\<rparr>"
    have step: "pushAudioPacket bm (Some p) = (True, ?bm)"
      using True by (rule pushAudioPacket_not_full)
    have "0 < maxBufferSize ?bm" "length (inputBuffer ?bm) \<le> maxBufferSize ?bm"
      using Cons.prems True by simp_all
    from Cons.IH [OF this] show ?thesis
      by (simp add: step)
  next
    case False
    with Cons.prems have full: "length (inputBuffer bm) = maxBufferSize bm" by simp
    let ?bm = "bm\<lparr>inputBuffer := tl (inputBuffer bm) @ [p],
                  droppedPackets := droppedPackets bm + 1,
                  totalPackets := totalPackets bm + 1\<rparr>"
    have step: "pushAudioPacket bm (Some p) = (True, ?bm)"
      using Cons.prems full by (intro pushAudioPacket_full) simp_all
    have ne: "inputBuffer bm \<noteq> []" using Cons.prems full by auto
    have len: "length (inputBuffer ?bm) = maxBufferSize bm"
      using full Cons.prems by simp
    have pre: "0 < maxBufferSize ?bm" "length (inputBuffer ?bm) \<le> maxBufferSize ?bm"
      using Cons.prems len by simp_all
    have q: "drop (Suc (length ps)) (inputBuffer bm @ p # ps)
               = drop (length ps) (tl (inputBuffer bm) @ p # ps)"
      using ne by (cases "inputBuffer bm") simp_all
    have a: "length (inputBuffer ?bm) + length ps - maxBufferSize ?bm = length ps"
      using len by simp
    have b: "length (inputBuffer bm) + length (p # ps) - maxBufferSize bm = Suc (length ps)"
      using full by simp
    have unfold: "pushAll bm (p # ps) = pushAll ?bm ps"
      by (simp add: step)
    have ih: "inputBuffer (pushAll ?bm ps) = drop (length ps) (tl (inputBuffer bm) @ p # ps)
        \<and> droppedPackets (pushAll ?bm ps) = droppedPackets bm + 1 + of_nat (length ps)
        \<and> totalPackets (pushAll ?bm ps) = totalPackets bm + 1 + of_nat (length ps)
        \<and> maxBufferSize (pushAll ?bm ps) = maxBufferSize bm
        \<and> outputBuffer (pushAll ?bm ps) = outputBuffer bm"
      using Cons.IH [OF pre] unfolding a by (simp del: drop_append)
    show ?thesis
      unfolding unfold b q using ih by (simp del: drop_append)
  qed
qed

lemma popAll_queue:
  "popAll bm n = map Some (take n (inputBuffer bm)) @ replicate (n - length (inputBuffer bm)) None"
proof (induction n arbitrary: bm)
  case 0
  then show ?case by simp
next
  case (Suc n)
  show ?case
    by (cases "inputBuffer bm") (simp_all add: popAudioPacket_def Suc)
qed

lemma pushAll_after_run:
  assumes "0 < K"
  shows "inputBuffer (pushAll (buffer_run (setMaxBufferSize BufferManager_ctor K) calls) ps)
         = drop (length (inputBuffer (buffer_run (setMaxBufferSize BufferManager_ctor K) calls))
                   + length ps - K)
             (inputBuffer (buffer_run (setMaxBufferSize BufferManager_ctor K) calls) @ ps)"
proof -
  let ?bm = "buffer_run (setMaxBufferSize BufferManager_ctor K) calls"
  have "within_capacity K (setMaxBufferSize BufferManager_ctor K)"
    by (simp add: within_capacity_def setMaxBufferSize_def BufferManager_ctor_def)
  then have "within_capacity K ?bm"
    using assms by (intro buffer_run_within_capacity)
  then show ?thesis
    using assms pushAll_queue [of ?bm ps] by (simp add: within_capacity_def)
qed

text \<open>
  Claim C1, for a capacity \<open>K\<close> of at least one. A push of a frame onto a full input
  queue removes exactly the front (oldest) frame, adds one to the dropped counter, appends
  the new frame and returns true; every push of a frame returns true. Starting from a
  fresh buffer manager whose limit was set to \<open>K\<close>, after any sequence of calls (pushes,
  pops, clears, on both queues) neither queue holds more than \<open>K\<close> frames; frames pushed
  after such a sequence leave in the queue the newest \<open>K\<close> frames in arrival order; and
  after pushing the frames \<open>ps\<close> into the fresh buffer the queue holds the last \<open>K\<close> of
  them, \<open>length ps - K\<close> frames were dropped, and successive pops return the survivors
  in the order they were pushed.
\<close>

theorem C1_drop_oldest_fifo:
  assumes "0 < K"
  shows "(maxBufferSize bm = K \<and> K \<le> length (inputBuffer bm) \<longrightarrow>
            pushAudioPacket bm (Some p) =
              (True, bm\<lparr>inputBuffer := tl (inputBuffer bm) @ [p],
                        droppedPackets := droppedPackets bm + 1,
                        totalPackets := totalPackets bm + 1\<rparr>))
       \<and> fst (pushAudioPacket bm (Some p))
       \<and> getInputBufferSize (buffer_run (setMaxBufferSize BufferManager_ctor K) calls) \<le> K
       \<and> getOutputBufferSize (buffer_run (setMaxBufferSize BufferManager_ctor K) calls) \<le> K
       \<and> inputBuffer (pushAll (buffer_run (setMaxBufferSize BufferManager_ctor K) calls) ps)
           = drop (getInputBufferSize (buffer_run (setMaxBufferSize BufferManager_ctor K) calls)
                     + length ps - K)
               (inputBuffer (buffer_run (setMaxBufferSize BufferManager_ctor K) calls) @ ps)
       \<and> inputBuffer (pushAll (setMaxBufferSize BufferManager_ctor K) ps) = drop (length ps - K) ps
       \<and> getInputBufferSize (pushAll (setMaxBufferSize BufferManager_ctor K) ps) = min K (length ps)
       \<and> droppedPackets (pushAll (setMaxBufferSize BufferManager_ctor K) ps) = of_nat (length ps - K)
       \<and> popAll (pushAll (setMaxBufferSize BufferManager_ctor K) ps) (min K (length ps))
           = map Some (drop (length ps - K) ps)"
proof -
  let ?bm0 = "setMaxBufferSize BufferManager_ctor K"
  have init: "within_capacity K ?bm0"
    by (simp add: within_capacity_def setMaxBufferSize_def BufferManager_ctor_def)
  have run: "within_capacity K (buffer_run ?bm0 calls)"
    using assms init by (rule buffer_run_within_capacity)
  have full: "maxBufferSize bm = K \<and> K \<le> length (inputBuffer bm) \<longrightarrow>
            pushAudioPacket bm (Some p) =
              (True, bm\<lparr>inputBuffer := tl (inputBuffer bm) @ [p],
                        droppedPackets := droppedPackets bm + 1,
                        totalPackets := totalPackets bm + 1\<rparr>)"
    using assms pushAudioPacket_full [of bm p] by simp
  have ret: "fst (pushAudioPacket bm (Some p))"
    by (simp add: pushAudioPacket_def Let_def)
  have fresh: "inputBuffer ?bm0 = []" "maxBufferSize ?bm0 = K" "droppedPackets ?bm0 = 0"
    by (simp_all add: setMaxBufferSize_def BufferManager_ctor_def)
  have q: "inputBuffer (pushAll ?bm0 ps) = drop (length ps - K) ps"
    and d: "droppedPackets (pushAll ?bm0 ps) = of_nat (length ps - K)"
    using assms pushAll_queue [of ?bm0 ps] by (simp_all add: fresh)
  have n: "getInputBufferSize (pushAll ?bm0 ps) = min K (length ps)"
    by (simp add: getInputBufferSize_def q min_def)
  have pops: "popAll (pushAll ?bm0 ps) (min K (length ps)) = map Some (drop (length ps - K) ps)"
    by (simp add: popAll_queue q min_def)
  show ?thesis
    using full ret run pushAll_after_run [OF assms, of calls ps] q n d pops
    by (simp add: within_capacity_def getInputBufferSize_def getOutputBufferSize_def)
qed

text \<open>
  The burst scenario, from the theorem at \<open>K = 4\<close>: a push onto a queue holding the
  frames 0..3 evicts frame 0; after pushing frames 0..9 without a pop the size is 4, the
  dropped count is 6, and four pops return the frames with sequence numbers 6, 7, 8, 9.
\<close>

theorem C1_burst_witness:
  "(0::nat) < 4
   \<and> maxBufferSize ((setMaxBufferSize BufferManager_ctor 4)\<lparr>inputBuffer := map frame_with_seq [0, 1, 2, 3]\<rparr>) = 4
   \<and> 4 \<le> length (inputBuffer
              ((setMaxBufferSize BufferManager_ctor 4)\<lparr>inputBuffer := map frame_with_seq [0, 1, 2, 3]\<rparr>))
   \<and> pushAudioPacket ((setMaxBufferSize BufferManager_ctor 4)\<lparr>inputBuffer := map frame_with_seq [0, 1, 2, 3]\<rparr>)
         (Some (frame_with_seq 4))
       = (True, (setMaxBufferSize BufferManager_ctor 4)
                  \<lparr>inputBuffer := map frame_with_seq [1, 2, 3, 4], droppedPackets := 1, totalPackets := 1\<rparr>)
   \<and> getInputBufferSize
         (pushAll (setMaxBufferSize BufferManager_ctor 4) (map frame_with_seq [0, 1, 2, 3, 4, 5, 6, 7, 8, 9])) = 4
   \<and> droppedPackets
         (pushAll (setMaxBufferSize BufferManager_ctor 4) (map frame_with_seq [0, 1, 2, 3, 4, 5, 6, 7, 8, 9])) = 6
   \<and> popAll (pushAll (setMaxBufferSize BufferManager_ctor 4) (map frame_with_seq [0, 1, 2, 3, 4, 5, 6, 7, 8, 9])) 4
       = map Some (map frame_with_seq [6, 7, 8, 9])
   \<and> map ap_sequenceNumber (map frame_with_seq [6, 7, 8, 9]) = [6, 7, 8, 9]"
proof -
  let ?full = "(setMaxBufferSize BufferManager_ctor 4)\<lparr>inputBuffer := map frame_with_seq [0, 1, 2, 3]\<rparr>"
  let ?burst = "map frame_with_seq [0, 1, 2, 3, 4, 5, 6, 7, 8, 9]"
  have pos: "(0::nat) < 4" by simp
  note inst = C1_drop_oldest_fifo [OF pos, of ?full "frame_with_seq 4" "[]" ?burst]
  have hyp: "maxBufferSize ?full = 4 \<and> 4 \<le> length (inputBuffer ?full)"
    by (simp add: setMaxBufferSize_def)
  have "maxBufferSize ?full = 4 \<and> 4 \<le> length (inputBuffer ?full) \<longrightarrow>
      pushAudioPacket ?full (Some (frame_with_seq 4)) =
        (True, ?full\<lparr>inputBuffer := tl (inputBuffer ?full) @ [frame_with_seq 4],
                      droppedPackets := droppedPackets ?full + 1,
                      totalPackets := totalPackets ?full + 1\<rparr>)"
    using inst by blast
  with hyp have push: "pushAudioPacket ?full (Some (frame_with_seq 4))
       = (True, (setMaxBufferSize BufferManager_ctor 4)
                  \<lparr>inputBuffer := map frame_with_seq [1, 2, 3, 4], droppedPackets := 1, totalPackets := 1\<rparr>)"
    by (simp add: setMaxBufferSize_def BufferManager_ctor_def)
  have "getInputBufferSize (pushAll (setMaxBufferSize BufferManager_ctor 4) ?burst) = min 4 (length ?burst)"
    using inst by blast
  then have size: "getInputBufferSize (pushAll (setMaxBufferSize BufferManager_ctor 4) ?burst) = 4"
    by (simp del: pushAll.simps)
  have "droppedPackets (pushAll (setMaxBufferSize BufferManager_ctor 4) ?burst) = of_nat (length ?burst - 4)"
    using inst by blast
  then have dropped: "droppedPackets (pushAll (setMaxBufferSize BufferManager_ctor 4) ?burst) = 6"
    by (simp del: pushAll.simps)
  have "popAll (pushAll (setMaxBufferSize BufferManager_ctor 4) ?burst) (min 4 (length ?burst))
       = map Some (drop (length ?burst - 4) ?burst)"
    using inst by blast
  moreover have "min 4 (length ?burst) = 4" "drop (length ?burst - 4) ?burst = map frame_with_seq [6, 7, 8, 9]"
    by simp_all
  ultimately have pops: "popAll (pushAll (setMaxBufferSize BufferManager_ctor 4) ?burst) 4
       = map Some (map frame_with_seq [6, 7, 8, 9])"
    by (simp only:)
  have seqs: "map ap_sequenceNumber (map frame_with_seq [6, 7, 8, 9]) = [6, 7, 8, 9]"
    by (simp add: frame_with_seq_def AudioPacket_ctor_def)
  show ?thesis
    using pos hyp push size dropped pops seqs by blast
qed

text \<open>
  With the limit set to 0 the bound fails: the queue is full while empty, nothing can be
  evicted, the dropped counter is incremented all the same, and the frame is enqueued, so
  the size 1 exceeds the capacity 0.
\<close>

theorem C1_capacity_zero_counterexample:
  "fst (pushAudioPacket (setMaxBufferSize BufferManager_ctor 0) (Some (frame_with_seq 0)))
   \<and> inputBuffer (snd (pushAudioPacket (setMaxBufferSize BufferManager_ctor 0) (Some (frame_with_seq 0))))
       = [frame_with_seq 0]
   \<and> droppedPackets (snd (pushAudioPacket (setMaxBufferSize BufferManager_ctor 0) (Some (frame_with_seq 0)))) = 1
   \<and> maxBufferSize (snd (pushAudioPacket (setMaxBufferSize BufferManager_ctor 0) (Some (frame_with_seq 0)))) = 0
   \<and> \<not> getInputBufferSize (snd (pushAudioPacket (setMaxBufferSize BufferManager_ctor 0) (Some (frame_with_seq 0))))
         \<le> maxBufferSize (snd (pushAudioPacket (setMaxBufferSize BufferManager_ctor 0) (Some (frame_with_seq 0))))"
  by (simp add: pushAudioPacket_def isBufferFull_def removeOldPackets_def setMaxBufferSize_def
        BufferManager_ctor_def getInputBufferSize_def Let_def)

section \<open>Verification: the wire format and the receive loop\<close>

lemma uint32_lsb_first_roundtrip:
  "uint32_of_lsb_first (ucast w) (ucast (drop_bit 8 w)) (ucast (drop_bit 16 w))
     (ucast (drop_bit 24 w)) = (w :: uint32_t)"
  unfolding uint32_of_lsb_first_def
  apply (rule bit_word_eqI)
  apply (auto simp: bit_simps)
  apply (rule ccontr)
  apply simp
  done

lemma uint32_of_bytes_roundtrip:
  "uint32_of_bytes h (bytes_of_uint32 h w @ rest) = w"
  by (cases h) (simp_all add: bytes_of_uint32_def uint32_lsb_first_roundtrip)

lemma length_bytes_of_uint32: "length (bytes_of_uint32 h w) = 4"
  by (cases h) (simp_all add: bytes_of_uint32_def)

lemma uint32_of_lsb_first_sum:
  "uint32_of_lsb_first b0 b1 b2 b3
     = ucast b0 + 256 * ucast b1 + 65536 * ucast b2 + 16777216 * ucast b3"
proof -
  let ?p1 = "push_bit 8 (ucast b1) :: uint32_t"
  let ?p2 = "push_bit 16 (ucast b2) :: uint32_t"
  let ?p3 = "push_bit 24 (ucast b3) :: uint32_t"
  have c: "?p2 OR ?p3 = ?p2 + ?p3"
    by (rule disjunctive_add [symmetric]) (auto simp: bit_simps dest: bit_imp_le_length)
  have b: "?p1 OR (?p2 OR ?p3) = ?p1 + (?p2 OR ?p3)"
    by (rule disjunctive_add [symmetric]) (auto simp: bit_simps dest: bit_imp_le_length)
  have a: "(ucast b0 :: uint32_t) OR (?p1 OR (?p2 OR ?p3)) = ucast b0 + (?p1 OR (?p2 OR ?p3))"
    by (rule disjunctive_add [symmetric]) (auto simp: bit_simps dest: bit_imp_le_length)
  have "uint32_of_lsb_first b0 b1 b2 b3 = ucast b0 OR (?p1 OR (?p2 OR ?p3))"
    by (simp only: uint32_of_lsb_first_def)
  also have "\<dots> = ucast b0 + (?p1 OR (?p2 OR ?p3))"
    by (rule a)
  also have "\<dots> = ucast b0 + (?p1 + (?p2 OR ?p3))"
    by (simp only: b)
  also have "\<dots> = ucast b0 + (?p1 + (?p2 + ?p3))"
    by (simp only: c)
  finally show ?thesis
    by (simp add: push_bit_eq_mult)
qed

text \<open>
  Claim C3. For every sequence number and every payload of at most 1020 bytes, and on
  either kind of host, deserializing the serialized packet gives back the same sequence
  number and the same payload bytes; the datagram is four bytes longer than the payload
  and fits \<open>Config::PACKET_SIZE\<close>.
\<close>

theorem C3_wire_round_trip:
  assumes "length payload \<le> 1020"
  shows "deserializePacket h (serializePacket h (Some (AudioPacket_ctor payload seq)))
           = Some (AudioPacket_ctor payload seq)
       \<and> ap_sequenceNumber (AudioPacket_ctor payload seq) = seq
       \<and> ap_data (AudioPacket_ctor payload seq) = payload
       \<and> length (serializePacket h (Some (AudioPacket_ctor payload seq))) = 4 + length payload
       \<and> length (serializePacket h (Some (AudioPacket_ctor payload seq))) \<le> PACKET_SIZE"
proof -
  let ?wire = "serializePacket h (Some (AudioPacket_ctor payload seq))"
  have wire: "?wire = bytes_of_uint32 h seq @ payload"
    by (simp add: serializePacket_def AudioPacket_ctor_def)
  have len: "length ?wire = 4 + length payload"
    by (simp add: wire length_bytes_of_uint32)
  have "deserializePacket h ?wire = Some (AudioPacket_ctor payload seq)"
    unfolding wire
    by (simp add: deserializePacket_def length_bytes_of_uint32 uint32_of_bytes_roundtrip)
  then show ?thesis
    using assms len by (simp add: AudioPacket_ctor_def PACKET_SIZE_def)
qed

text \<open>The round trip of the payload 01 02 03 with sequence number 12345.\<close>

theorem C3_wire_round_trip_witness:
  "length [1, 2, 3 :: uint8_t] \<le> 1020
   \<and> serializePacket LittleEndian (Some (AudioPacket_ctor [1, 2, 3] 12345)) = [0x39, 0x30, 0, 0, 1, 2, 3]
   \<and> deserializePacket LittleEndian [0x39, 0x30, 0, 0, 1, 2, 3] = Some (AudioPacket_ctor [1, 2, 3] 12345)"
proof -
  have len: "length [1, 2, 3 :: uint8_t] \<le> 1020" by simp
  have wire: "serializePacket LittleEndian (Some (AudioPacket_ctor [1, 2, 3] 12345))
      = [0x39, 0x30, 0, 0, 1, 2, 3]"
    by (simp add: serializePacket_def AudioPacket_ctor_def bytes_of_uint32_def)
  from C3_wire_round_trip [OF len, of LittleEndian 12345]
  have "deserializePacket LittleEndian (serializePacket LittleEndian (Some (AudioPacket_ctor [1, 2, 3] 12345)))
           = Some (AudioPacket_ctor [1, 2, 3] 12345)"
    by blast
  with len wire show ?thesis by simp
qed

text \<open>
  Claim C8, as the code has it. \<open>deserializePacket\<close> reads the sequence number with
  \<open>memcpy\<close>, that is in the byte order of the host: on a little-endian host the first
  byte is the least significant and \<open>39 30 00 00\<close> is 12345; on a big-endian host the
  first byte is the most significant and the same bytes are 959447040.
\<close>

theorem C8_host_byte_order:
  "deserializePacket LittleEndian (b0 # b1 # b2 # b3 # payload)
     = Some (AudioPacket_ctor payload
              (ucast b0 + 256 * ucast b1 + 65536 * ucast b2 + 16777216 * ucast b3))
   \<and> deserializePacket BigEndian (b0 # b1 # b2 # b3 # payload)
     = Some (AudioPacket_ctor payload
              (ucast b3 + 256 * ucast b2 + 65536 * ucast b1 + 16777216 * ucast b0))
   \<and> deserializePacket LittleEndian (0x39 # 0x30 # 0 # 0 # payload)
     = Some (AudioPacket_ctor payload 12345)
   \<and> deserializePacket BigEndian (0x39 # 0x30 # 0 # 0 # payload)
     = Some (AudioPacket_ctor payload 959447040)"
  by (simp add: deserializePacket_def uint32_of_lsb_first_sum)

text \<open>
  On a big-endian host the datagram \<open>39 30 00 00\<close> does not deserialize to 12345.
\<close>

theorem C8_big_endian_counterexample:
  "deserializePacket BigEndian [0x39, 0x30, 0, 0] = Some (AudioPacket_ctor [] 959447040)
   \<and> (959447040 :: uint32_t) \<noteq> 12345"
  by (simp add: deserializePacket_def uint32_of_lsb_first_def)

lemma processReceivedData_short:
  assumes "length datagram < 4" "datagram \<noteq> []"
  shows "snd (processReceivedData h u datagram fromAddr)
           = u\<lparr>remoteAddr := (if isServer u then fromAddr else remoteAddr u),
               callback_calls :=
                 callback_calls u @ (if onDataReceived_set u then [OnDataReceived datagram] else [])\<rparr>"
  using assms
  by (simp add: processReceivedData_def deserializePacket_def Let_def)

text \<open>
  Claim C7, as the code has it. A datagram of fewer than four bytes received by a running
  manager deserializes to no packet; the loop goes on with the next \<open>recvfrom\<close> (after
  this datagram alone it is blocked there, alive); the playback buffer is untouched and
  no packet callback is made (the raw-data callback is, for a non-empty datagram, when
  set); and the datagram is counted by \<open>receivedPackets\<close>, the other two counters are
  unchanged. The class has no counter of malformed datagrams.
\<close>

theorem C7_short_datagram:
  assumes "length datagram < 4" and "isRunning u"
  shows "deserializePacket h datagram = None
       \<and> receiverLoop h u (RecvDatagram datagram fromAddr # rest)
           = receiverLoop h (after_short_datagram u datagram fromAddr) rest
       \<and> receiverLoop h u [RecvDatagram datagram fromAddr]
           = (BlockedInRecvfrom, after_short_datagram u datagram fromAddr)
       \<and> bufferManager (after_short_datagram u datagram fromAddr) = bufferManager u
       \<and> callback_calls (after_short_datagram u datagram fromAddr)
           = callback_calls u
             @ (if datagram \<noteq> [] \<and> onDataReceived_set u then [OnDataReceived datagram] else [])
       \<and> counters (after_short_datagram u datagram fromAddr)
           = (sentPackets u, receivedPackets u + (if datagram = [] then 0 else 1), failedSends u)"
proof -
  have none: "deserializePacket h datagram = None"
    using assms by (simp add: deserializePacket_def)
  have whole: "take (PACKET_SIZE * 2) datagram = datagram"
    using assms by (simp add: PACKET_SIZE_def)
  have run: "isRunning (after_short_datagram u datagram fromAddr)"
    using assms by (simp add: after_short_datagram_def)
  have step: "receiverLoop h u (RecvDatagram datagram fromAddr # rest)
           = receiverLoop h (after_short_datagram u datagram fromAddr) rest" for rest
  proof (cases "datagram = []")
    case True
    then show ?thesis using assms by (simp add: after_short_datagram_def)
  next
    case False
    then show ?thesis
      using assms
      by (simp add: whole Let_def processReceivedData_short after_short_datagram_def)
  qed
  have alive: "receiverLoop h u [RecvDatagram datagram fromAddr]
           = (BlockedInRecvfrom, after_short_datagram u datagram fromAddr)"
    unfolding step using run by simp
  show ?thesis
    using none step alive by (simp add: after_short_datagram_def counters_def)
qed

text \<open>A three-byte datagram received by a listener.\<close>

theorem C7_short_datagram_witness:
  "length [1, 2, 3 :: uint8_t] < 4 \<and> isRunning listening_manager
   \<and> receiverLoop LittleEndian listening_manager [RecvDatagram [1, 2, 3] peer_addr]
       = (BlockedInRecvfrom,
          listening_manager\<lparr>remoteAddr := peer_addr,
            callback_calls := [OnDataReceived [1, 2, 3]], receivedPackets := 1\<rparr>)"
proof -
  have hyp: "length [1, 2, 3 :: uint8_t] < 4" "isRunning listening_manager"
    by (simp_all add: listening_manager_def)
  from C7_short_datagram [OF hyp, of LittleEndian peer_addr "[]"]
  have "receiverLoop LittleEndian listening_manager [RecvDatagram [1, 2, 3] peer_addr]
           = (BlockedInRecvfrom, after_short_datagram listening_manager [1, 2, 3] peer_addr)"
    by blast
  then show ?thesis
    using hyp by (simp add: after_short_datagram_def listening_manager_def UDPManager_ctor_def)
qed

text \<open>
  The three counters of the manager after a three-byte datagram are what they are after a
  well-formed five-byte datagram: the short datagram is counted as received, and nothing
  counts it as malformed.
\<close>

theorem C7_no_malformed_counter_counterexample:
  "counters listening_manager = (0, 0, 0)
   \<and> counters (snd (receiverLoop LittleEndian listening_manager [RecvDatagram [1, 2, 3] peer_addr]))
       = (0, 1, 0)
   \<and> counters (snd (receiverLoop LittleEndian listening_manager [RecvDatagram [1, 2, 3, 4, 5] peer_addr]))
       = (0, 1, 0)"
  by (simp add: counters_def listening_manager_def UDPManager_ctor_def PACKET_SIZE_def
        processReceivedData_def deserializePacket_def Let_def pushNetworkPacket_def
        split: option.splits)

section \<open>Verification: LyraCodec\<close>

lemma codec_step_numbering:
  assumes "lc_nextSequenceNumber c = of_nat (length emitted)"
    and "map ep_sequenceNumber emitted = map of_nat [0..<length emitted]"
    and "codec_step h (c, emitted) call = (c', emitted')"
  shows "lc_nextSequenceNumber c' = of_nat (length emitted')
       \<and> map ep_sequenceNumber emitted' = map of_nat [0..<length emitted']"
  using assms
  by (cases call)
     (auto simp: LyraCodec_initialize_def LyraCodec_encode_def LyraCodec_decode_def
        LyraCodec_setBitrate_def EncodedPacket_ctor_def Let_def
        split: if_splits)

lemma codec_run_numbering:
  assumes "lc_nextSequenceNumber c = of_nat (length emitted)"
    and "map ep_sequenceNumber emitted = map of_nat [0..<length emitted]"
  shows "map ep_sequenceNumber (snd (foldl (codec_step h) (c, emitted) calls))
       = map of_nat [0..<length (snd (foldl (codec_step h) (c, emitted) calls))]"
  using assms
proof (induction calls arbitrary: c emitted)
  case Nil
  then show ?case by simp
next
  case (Cons call calls)
  obtain c' emitted' where step: "codec_step h (c, emitted) call = (c', emitted')"
    by (cases "codec_step h (c, emitted) call")
  from codec_step_numbering [OF Cons.prems step] Cons.IH [of c' emitted']
  show ?case by (simp add: step)
qed

lemma codec_session_numbering:
  "map ep_sequenceNumber (codec_session h calls) = map of_nat [0..<length (codec_session h calls)]"
  unfolding codec_session_def
  by (rule codec_run_numbering) (simp_all add: LyraCodec_ctor_def)

text \<open>
  Claim C10. For every initialized codec and every encoded payload of odd length (which
  is then not empty), \<open>decode\<close> returns no samples and adds exactly one to the
  decoding-error counter; the decoded-frames counter, like every other field, is
  unchanged.
\<close>

theorem C10_odd_payload:
  assumes "lc_initialized c" and "odd (length encodedData)"
  shows "LyraCodec_decode h c encodedData = (None, c\<lparr>decodingErrors := decodingErrors c + 1\<rparr>)
       \<and> decodingErrors (snd (LyraCodec_decode h c encodedData)) = decodingErrors c + 1
       \<and> decodedFrames (snd (LyraCodec_decode h c encodedData)) = decodedFrames c"
proof -
  have "encodedData \<noteq> []" using assms(2) by auto
  moreover have "decodeRaw h encodedData = []"
    using assms(2) by (simp add: decodeRaw_def odd_iff_mod_2_eq_one)
  ultimately show ?thesis
    using assms(1) by (simp add: LyraCodec_decode_def)
qed

lemma int16_byte_pair_roundtrip:
  "bytes_of_int16 h w = [b0, b1] \<Longrightarrow> int16_of_byte_pair h b0 b1 = w"
  apply (cases h)
   apply (auto simp: bytes_of_int16_def int16_of_byte_pair_def)
   apply (rule bit_word_eqI, auto simp: bit_simps)+
  done

lemma samples_of_bytes_encodeRaw: "samples_of_bytes h (encodeRaw h xs) = xs"
proof (induction xs)
  case Nil
  then show ?case by (simp add: encodeRaw_def)
next
  case (Cons x xs)
  obtain b0 b1 where b: "bytes_of_int16 h x = [b0, b1]"
    by (cases h) (simp_all add: bytes_of_int16_def)
  from Cons show ?case
    by (simp add: encodeRaw_def b int16_byte_pair_roundtrip [OF b])
qed

lemma length_encodeRaw: "length (encodeRaw h xs) = 2 * length xs"
proof (induction xs)
  case Nil
  then show ?case by (simp add: encodeRaw_def)
next
  case (Cons x xs)
  then show ?case by (cases h) (simp_all add: encodeRaw_def bytes_of_int16_def)
qed

lemma encode_success:
  assumes "lc_initialized c" and "audioData \<noteq> []" and "validateInputSize c (length audioData)"
  shows "LyraCodec_encode h c now audioData =
           (Some ((EncodedPacket_ctor (encodeRaw h audioData) (lc_nextSequenceNumber c) (lc_currentBitrate c))
                    \<lparr>ep_timestamp := now\<rparr>),
            c\<lparr>lc_nextSequenceNumber := lc_nextSequenceNumber c + 1, encodedFrames := encodedFrames c + 1\<rparr>)"
proof -
  have "length (encodeRaw h audioData) \<noteq> 0"
    using assms(2) by (simp add: length_encodeRaw)
  then have "encodeRaw h audioData \<noteq> []" by auto
  then show ?thesis
    using assms by (simp add: LyraCodec_encode_def Let_def)
qed

lemma encode_replicate:
  assumes "lc_initialized c" and "validateInputSize c 320"
  shows "length (snd (foldl (codec_step h) (c, emitted) (replicate n (Encode now silent_frame))))
           = length emitted + n"
  using assms
proof (induction n arbitrary: c emitted)
  case 0
  then show ?case by simp
next
  case (Suc n)
  let ?c = "c\<lparr>lc_nextSequenceNumber := lc_nextSequenceNumber c + 1, encodedFrames := encodedFrames c + 1\<rparr>"
  let ?p = "(EncodedPacket_ctor (encodeRaw h silent_frame) (lc_nextSequenceNumber c) (lc_currentBitrate c))
                    \<lparr>ep_timestamp := now\<rparr>"
  have step: "LyraCodec_encode h c now silent_frame = (Some ?p, ?c)"
    using Suc.prems by (intro encode_success) (simp_all add: silent_frame_def)
  have "lc_initialized ?c" "validateInputSize ?c 320"
    using Suc.prems by (simp_all add: validateInputSize_def getExpectedInputSize_def)
  from Suc.IH [OF this, of "emitted @ [?p]"] show ?case
    by (simp add: step)
qed

lemma long_session_length: "length (codec_session h long_session) = 2 ^ 32 + 1"
proof -
  let ?c = "snd (LyraCodec_initialize LyraCodec_ctor 16000 1 6000)"
  have init: "LyraCodec_initialize LyraCodec_ctor 16000 1 6000
      = (True, LyraCodec_ctor\<lparr>lc_sampleRate := 16000, lc_channels := 1, lc_currentBitrate := 6000,
                 lc_frameSize := 320, lc_initialized := True\<rparr>)"
    by (simp add: LyraCodec_initialize_def LyraCodec_ctor_def validateParameters_def
          isValidBitrate_def LYRA_MIN_BITRATE_def LYRA_MAX_BITRATE_def LYRA_FRAME_SIZE_MS_def)
  have "lc_initialized ?c" "validateInputSize ?c 320"
    by (simp_all add: init validateInputSize_def getExpectedInputSize_def)
  from encode_replicate [OF this, of h "[]" "2 ^ 32 + 1" 0] show ?thesis
    by (simp add: codec_session_def long_session_def)
qed

text \<open>
  Claim C2, for the codec. In every session on a freshly constructed \<open>LyraCodec\<close>
  (whatever calls are made, failing ones included) the packet emitted as number \<open>k\<close>,
  counting from 0, carries the sequence number \<open>k\<close> reduced modulo \<open>2^32\<close>: the first
  emitted packet carries 0, and among the first \<open>2^32\<close> packets a later packet carries a
  greater number than an earlier one.
\<close>

theorem C2_sequence_numbers:
  "map ep_sequenceNumber (codec_session h calls) = map of_nat [0..<length (codec_session h calls)]
   \<and> (codec_session h calls \<noteq> [] \<longrightarrow> ep_sequenceNumber (hd (codec_session h calls)) = 0)
   \<and> (i < j \<and> j < length (codec_session h calls) \<and> j < 2 ^ 32 \<longrightarrow>
        ep_sequenceNumber (codec_session h calls ! i) < ep_sequenceNumber (codec_session h calls ! j))"
proof -
  let ?pkts = "codec_session h calls"
  have num: "map ep_sequenceNumber ?pkts = map of_nat [0..<length ?pkts]"
    by (rule codec_session_numbering)
  have nth: "ep_sequenceNumber (?pkts ! k) = of_nat k" if "k < length ?pkts" for k
  proof -
    have "ep_sequenceNumber (?pkts ! k) = map ep_sequenceNumber ?pkts ! k"
      using that by simp
    also have "\<dots> = of_nat k"
      unfolding num using that by simp
    finally show ?thesis .
  qed
  have first: "ep_sequenceNumber (hd ?pkts) = 0" if "?pkts \<noteq> []"
    using that nth [of 0] by (simp add: hd_conv_nth)
  have incr: "ep_sequenceNumber (?pkts ! i) < ep_sequenceNumber (?pkts ! j)"
    if "i < j" "j < length ?pkts" "j < 2 ^ 32"
  proof -
    have "(of_nat i :: uint32_t) < of_nat j"
      using that by (simp add: of_nat_word_less_iff take_bit_nat_eq_self)
    then show ?thesis
      using that nth [of i] nth [of j] by simp
  qed
  show ?thesis
    using num first incr by blast
qed

lemma encodeRaw_silent_frame: "encodeRaw h silent_frame = replicate 640 0"
proof -
  have "encodeRaw h (replicate n 0) = replicate (2 * n) 0" for n
    by (induction n) (cases h; simp add: encodeRaw_def bytes_of_int16_def)+
  then show ?thesis by (simp add: silent_frame_def)
qed

lemma short_session_packets:
  "codec_session h short_session =
     [\<lparr>ep_data = replicate 640 0, ep_sequenceNumber = 0, ep_bitrate = 6000, ep_timestamp = 10\<rparr>,
      \<lparr>ep_data = replicate 640 0, ep_sequenceNumber = 1, ep_bitrate = 9200, ep_timestamp = 30\<rparr>,
      \<lparr>ep_data = replicate 640 0, ep_sequenceNumber = 2, ep_bitrate = 9200, ep_timestamp = 40\<rparr>]"
proof -
  have len: "length silent_frame = 320" "silent_frame \<noteq> []"
    by (auto simp: silent_frame_def)
  have ne: "replicate 640 (0 :: uint8_t) \<noteq> []" by simp
  show ?thesis
    by (simp add: codec_session_def short_session_def LyraCodec_initialize_def LyraCodec_ctor_def
        validateParameters_def isValidBitrate_def LYRA_MIN_BITRATE_def LYRA_MAX_BITRATE_def
        LYRA_FRAME_SIZE_MS_def LyraCodec_encode_def LyraCodec_decode_def LyraCodec_setBitrate_def
        validateInputSize_def getExpectedInputSize_def decodeRaw_def EncodedPacket_ctor_def
        encodeRaw_silent_frame len ne)
qed

text \<open>
  A session in which an \<open>encode\<close> with a wrong frame length, a bitrate change and a
  \<open>decode\<close> stand between the successful \<open>encode\<close> calls: the packets carry 0, 1, 2.
\<close>

theorem C2_sequence_numbers_witness:
  "codec_session LittleEndian short_session \<noteq> []
   \<and> (0::nat) < 1 \<and> 1 < length (codec_session LittleEndian short_session) \<and> (1::nat) < 2 ^ 32
   \<and> map ep_sequenceNumber (codec_session LittleEndian short_session) = [0, 1, 2]
   \<and> ep_sequenceNumber (hd (codec_session LittleEndian short_session)) = 0
   \<and> ep_sequenceNumber (codec_session LittleEndian short_session ! 0)
       < ep_sequenceNumber (codec_session LittleEndian short_session ! 1)"
proof -
  have hyp: "codec_session LittleEndian short_session \<noteq> []"
    "(0::nat) < 1 \<and> 1 < length (codec_session LittleEndian short_session) \<and> (1::nat) < 2 ^ 32"
    by (simp_all add: short_session_packets)
  note inst = C2_sequence_numbers [of LittleEndian short_session 0 1]
  have seqs: "map ep_sequenceNumber (codec_session LittleEndian short_session) = [0, 1, 2]"
    by (simp add: short_session_packets)
  have first: "ep_sequenceNumber (hd (codec_session LittleEndian short_session)) = 0"
    using inst hyp by blast
  have incr: "ep_sequenceNumber (codec_session LittleEndian short_session ! 0)
       < ep_sequenceNumber (codec_session LittleEndian short_session ! 1)"
    using inst hyp by blast
  show ?thesis
    using hyp seqs first incr by blast
qed

lemma fresh_codec_fields:
  "fresh_codec =
     \<lparr>lc_initialized = True, lc_sampleRate = 16000, lc_channels = 1,
      lc_currentBitrate = 6000, lc_frameSize = 320,
      lc_nextSequenceNumber = 0, encodedFrames = 0, decodedFrames = 0,
      encodingErrors = 0, decodingErrors = 0\<rparr>"
  by (simp add: fresh_codec_def LyraCodec_initialize_def LyraCodec_ctor_def validateParameters_def
        isValidBitrate_def LYRA_MIN_BITRATE_def LYRA_MAX_BITRATE_def LYRA_FRAME_SIZE_MS_def)

text \<open>A three-byte payload given to a freshly initialized codec.\<close>

theorem C10_odd_payload_witness:
  "lc_initialized fresh_codec \<and> odd (length [1, 2, 3 :: uint8_t])
   \<and> fst (LyraCodec_decode LittleEndian fresh_codec [1, 2, 3]) = None
   \<and> decodingErrors (snd (LyraCodec_decode LittleEndian fresh_codec [1, 2, 3])) = 1
   \<and> decodedFrames (snd (LyraCodec_decode LittleEndian fresh_codec [1, 2, 3])) = 0"
proof -
  have hyp: "lc_initialized fresh_codec" "odd (length [1, 2, 3 :: uint8_t])"
    by (simp_all add: fresh_codec_fields)
  from C10_odd_payload [OF hyp, of LittleEndian]
  have "LyraCodec_decode LittleEndian fresh_codec [1, 2, 3]
          = (None, fresh_codec\<lparr>decodingErrors := decodingErrors fresh_codec + 1\<rparr>)"
    by blast
  then show ?thesis
    using hyp by (simp add: fresh_codec_fields)
qed

section \<open>Verification: the pass-through path of the preprocessor\<close>

lemma reconfigured_fields:
  "pp_initialized reconfigured_without_codec"
  "pp_codec reconfigured_without_codec \<noteq> None"
  "\<not> enableCodec (pp_config reconfigured_without_codec)"
  "enableAGC (pp_config reconfigured_without_codec)"
  "currentGain reconfigured_without_codec = 1"
  by code_simp+

lemma initialized_without_codec_fields:
  "pp_initialized initialized_without_codec"
  "pp_codec initialized_without_codec = None"
  "\<not> enableCodec (pp_config initialized_without_codec)"
  by code_simp+

lemma processOutput_samples:
  assumes "pp_initialized pp" and "enableAGC (pp_config pp)"
    and "0 < length xs" and "length xs \<le> 1024"
  shows "processOutput pp xs =
           Some (True,
             map (\<lambda>x. int16_of_float
                        (fmul (max (- 1) (min 1 (fmul (fmul (float_of_int16 x) (fdiv 1 32768)) (currentGain pp))))
                           32767)) xs)"
  using assms
  by (auto simp: processOutput_def validateSampleCount_def FRAMES_PER_BUFFER_def tempBuffer_size_def
        processAudioChain_output_def int16ToFloat_def floatToInt16_def o_def)

lemma decode_raw_packet:
  assumes "pp_initialized pp" and "pp_codec pp \<noteq> None" and "\<not> enableCodec (pp_config pp)"
    and "enableAGC (pp_config pp)" and "0 < length F" and "length F \<le> 1024"
  shows "AudioPreprocessor_decode resampleFromLyra h pp (EncodedPacket_ctor (encodeRaw h F) 0 0) =
           Some (Some (map (\<lambda>x. int16_of_float
                        (fmul (max (- 1) (min 1 (fmul (fmul (float_of_int16 x) (fdiv 1 32768)) (currentGain pp))))
                           32767)) F), pp)"
  using assms
  by (simp add: AudioPreprocessor_decode_def EncodedPacket_ctor_def length_encodeRaw
        samples_of_bytes_encodeRaw processOutput_samples)

lemma unit_sample_lost:
  "int16_of_float (fmul (max (- 1) (min 1 (fmul (fmul (float_of_int16 1) (fdiv 1 32768)) 1))) 32767) = 0"
  by code_simp

text \<open>
  Claim C4 at a 20 ms frame (960 samples at 48 kHz) whose samples are all 1. A
  preprocessor initialized with the codec disabled has no codec object and its \<open>encode\<close>
  returns nothing. A preprocessor reconfigured to have the codec disabled encodes the
  frame to its bytes, and \<open>decode\<close> of that packet returns 960 samples of value 0: the
  output chain scales by \<open>1/32768\<close> on the way in and by \<open>32767\<close> on the way out and
  truncates.
\<close>

theorem C4_pass_through_round_trip_fails:
  "fst (AudioPreprocessor_encode inputChain resampleTo16kHz h initialized_without_codec now (replicate 960 1))
     = None
   \<and> fst (AudioPreprocessor_encode inputChain resampleTo16kHz h reconfigured_without_codec now (replicate 960 1))
     = Some (EncodedPacket_ctor (encodeRaw h (replicate 960 1)) 0 0)
   \<and> AudioPreprocessor_decode resampleFromLyra h reconfigured_without_codec
       (EncodedPacket_ctor (encodeRaw h (replicate 960 1)) 0 0)
     = Some (Some (replicate 960 0), reconfigured_without_codec)"
proof -
  have a: "fst (AudioPreprocessor_encode inputChain resampleTo16kHz h initialized_without_codec now
                  (replicate 960 1)) = None"
    by (simp add: AudioPreprocessor_encode_def initialized_without_codec_fields)
  have b: "fst (AudioPreprocessor_encode inputChain resampleTo16kHz h reconfigured_without_codec now
                  (replicate 960 1))
             = Some (EncodedPacket_ctor (encodeRaw h (replicate 960 1)) 0 0)"
    using reconfigured_fields by (simp add: AudioPreprocessor_encode_def)
  have c: "AudioPreprocessor_decode resampleFromLyra h reconfigured_without_codec
       (EncodedPacket_ctor (encodeRaw h (replicate 960 1)) 0 0)
     = Some (Some (replicate 960 0), reconfigured_without_codec)"
    using reconfigured_fields
    by (simp add: decode_raw_packet unit_sample_lost)
  show ?thesis using a b c by blast
qed

section \<open>Verification: sequence numbers across the components\<close>

text \<open>
  Two failures of strictly increasing sequence numbers. In a codec session of \<open>2^32 + 1\<close>
  successful \<open>encode\<close> calls the packet after the one numbered \<open>2^32 - 1\<close> carries 0
  again. And a preprocessor reconfigured to have the codec disabled emits every packet
  with sequence number 0: two successive \<open>encode\<close> calls leave it unchanged and both
  packets carry 0.
\<close>

theorem C2_numbering_counterexample:
  "length (codec_session LittleEndian long_session) = 2 ^ 32 + 1
   \<and> ep_sequenceNumber (codec_session LittleEndian long_session ! (2 ^ 32 - 1)) = 4294967295
   \<and> ep_sequenceNumber (codec_session LittleEndian long_session ! (2 ^ 32)) = 0
   \<and> AudioPreprocessor_encode (\<lambda>pp xs. (Some xs, pp)) id LittleEndian reconfigured_without_codec 10
         (replicate 960 1)
       = (Some (EncodedPacket_ctor (encodeRaw LittleEndian (replicate 960 1)) 0 0), reconfigured_without_codec)
   \<and> AudioPreprocessor_encode (\<lambda>pp xs. (Some xs, pp)) id LittleEndian reconfigured_without_codec 20
         (replicate 960 2)
       = (Some (EncodedPacket_ctor (encodeRaw LittleEndian (replicate 960 2)) 0 0), reconfigured_without_codec)
   \<and> ep_sequenceNumber (EncodedPacket_ctor (encodeRaw LittleEndian (replicate 960 1)) 0 0) = 0
   \<and> ep_sequenceNumber (EncodedPacket_ctor (encodeRaw LittleEndian (replicate 960 2)) 0 0) = 0"
proof -
  let ?pkts = "codec_session LittleEndian long_session"
  have len: "length ?pkts = 2 ^ 32 + 1"
    by (rule long_session_length)
  have num: "map ep_sequenceNumber ?pkts = map of_nat [0..<length ?pkts]"
    by (rule codec_session_numbering)
  have nth: "ep_sequenceNumber (?pkts ! k) = of_nat k" if "k < length ?pkts" for k
  proof -
    have "ep_sequenceNumber (?pkts ! k) = map ep_sequenceNumber ?pkts ! k"
      using that by simp
    also have "\<dots> = of_nat k"
      unfolding num using that by simp
    finally show ?thesis .
  qed
  have last_before_wrap: "ep_sequenceNumber (?pkts ! (2 ^ 32 - 1)) = 4294967295"
    using nth [of "2 ^ 32 - 1"] len by simp
  have wrapped: "ep_sequenceNumber (?pkts ! (2 ^ 32)) = 0"
    using nth [of "2 ^ 32"] len by simp
  have raw: "AudioPreprocessor_encode (\<lambda>pp xs. (Some xs, pp)) id LittleEndian reconfigured_without_codec now F
       = (Some (EncodedPacket_ctor (encodeRaw LittleEndian F) 0 0), reconfigured_without_codec)" for now F
    using reconfigured_fields by (simp add: AudioPreprocessor_encode_def)
  have zero: "ep_sequenceNumber (EncodedPacket_ctor bytes 0 0) = 0" for bytes
    by (simp add: EncodedPacket_ctor_def)
  show ?thesis
    using len last_before_wrap wrapped raw zero by blast
qed

section \<open>Verification: BitrateCalculator\<close>

text \<open>
  Claim C9. \<open>reportPacketLoss\<close> with \<open>totalPackets = 0\<close> returns, and returns the
  calculator as it was: no field changes, the division is not reached, and the mutex is
  not touched (so the call returns even when an earlier call has left it locked).
\<close>

theorem C9_no_packets_no_change:
  "reportPacketLoss bc 0 lostCount = (Returned, bc)"
  by (simp add: reportPacketLoss_def)

lemma clampBitrate_range:
  "LYRA_MIN_BITRATE \<le> clampBitrate b \<and> clampBitrate b \<le> LYRA_MAX_BITRATE"
  by (simp add: clampBitrate_def LYRA_MIN_BITRATE_def LYRA_MAX_BITRATE_def)

lemma calculateOptimalBitrate_of_range:
  "LYRA_MIN_BITRATE \<le> calculateOptimalBitrate_of bc network audio
   \<and> calculateOptimalBitrate_of bc network audio \<le> LYRA_MAX_BITRATE"
  using clampBitrate_range by (simp add: calculateOptimalBitrate_of_def Let_def)

lemma calculateOptimalBitrate_range:
  assumes "calculateOptimalBitrate bc = Some b"
  shows "LYRA_MIN_BITRATE \<le> b \<and> b \<le> LYRA_MAX_BITRATE"
proof (cases "bc_initialized bc")
  case True
  with assms have "b = calculateOptimalBitrate_of bc (networkMetrics bc) (audioMetrics bc)"
    by (auto simp: calculateOptimalBitrate_def split: if_splits)
  then show ?thesis
    using calculateOptimalBitrate_of_range by simp
next
  case False
  with assms have "b = LYRA_DEFAULT_BITRATE"
    by (simp add: calculateOptimalBitrate_def)
  then show ?thesis
    by (simp add: LYRA_MIN_BITRATE_def LYRA_MAX_BITRATE_def LYRA_DEFAULT_BITRATE_def)
qed

lemma commitBitrate_current: "bc_currentBitrate (commitBitrate bc b) = b"
  by (simp add: commitBitrate_def addToHistory_def Let_def)

lemma updateNetworkMetrics_in_range:
  assumes "bitrate_in_range bc"
  shows "bitrate_in_range (snd (updateNetworkMetrics bc m))"
proof (cases "calculateOptimalBitrate (bc\<lparr>metricsMutex_locked := True, networkMetrics := m\<rparr>)")
  case None
  then show ?thesis
    using assms by (simp add: bitrate_in_range_def updateNetworkMetrics_def Let_def)
next
  case (Some b)
  then show ?thesis
    using assms calculateOptimalBitrate_range [OF Some]
    by (simp add: bitrate_in_range_def updateNetworkMetrics_def commitBitrate_current Let_def)
qed

lemma updateAudioMetrics_in_range:
  assumes "bitrate_in_range bc"
  shows "bitrate_in_range (snd (updateAudioMetrics bc m))"
proof (cases "calculateOptimalBitrate (bc\<lparr>metricsMutex_locked := True, audioMetrics := m\<rparr>)")
  case None
  then show ?thesis
    using assms by (simp add: bitrate_in_range_def updateAudioMetrics_def Let_def)
next
  case (Some b)
  then show ?thesis
    using assms calculateOptimalBitrate_range [OF Some]
    by (simp add: bitrate_in_range_def updateAudioMetrics_def commitBitrate_current Let_def)
qed

lemma setQualityMode_in_range:
  assumes "bitrate_in_range bc"
  shows "bitrate_in_range (snd (setQualityMode bc mode))"
proof (cases "calculateOptimalBitrate (bc\<lparr>qualityMode := mode\<rparr>)")
  case None
  then show ?thesis
    using assms by (simp add: bitrate_in_range_def setQualityMode_def Let_def)
next
  case (Some b)
  then show ?thesis
    using assms calculateOptimalBitrate_range [OF Some]
    by (simp add: bitrate_in_range_def setQualityMode_def commitBitrate_current Let_def)
qed

lemma bitrate_step_in_range:
  assumes "bitrate_in_range bc"
  shows "bitrate_in_range (bitrate_step bc call)"
proof (cases call)
  case (CallInitialize b)
  then show ?thesis
    using assms clampBitrate_range [of b]
    by (simp add: bitrate_in_range_def BitrateCalculator_initialize_def addToHistory_def Let_def)
next
  case (UpdateNetworkMetrics m)
  then show ?thesis
    using assms by (simp add: updateNetworkMetrics_in_range)
next
  case (UpdateAudioMetrics m)
  then show ?thesis
    using assms by (simp add: updateAudioMetrics_in_range)
next
  case (SetQualityMode m)
  then show ?thesis
    using assms by (simp add: setQualityMode_in_range)
qed (use assms in \<open>simp_all add: bitrate_in_range_def BitrateCalculator_shutdown_def
       reportPacketLoss_def reportLatency_def reportBandwidth_def setTargetQuality_def
       setAdaptationSpeed_def setStabilityThreshold_def enableAutoAdaptation_def Let_def\<close>)

lemma bitrate_run_in_range:
  "bitrate_in_range bc \<Longrightarrow> bitrate_in_range (bitrate_run bc calls)"
  unfolding bitrate_run_def
  by (induction calls arbitrary: bc) (simp_all add: bitrate_step_in_range)

text \<open>
  Claim C5. After any sequence of calls on a freshly constructed calculator (initialize,
  shutdown, metric updates and reports with any values, tuning and mode changes) the
  current bitrate lies in [3200, 9200]; so it does right after initialization, and after
  a further update of the network or of the audio metrics, whether that update returns
  or blocks in the mutex. The bitrate that \<open>calculateOptimalBitrate(network, audio)\<close>
  computes lies in the same range for every state and all metrics.
\<close>

theorem C5_bitrate_within_bounds:
  "3200 \<le> bc_currentBitrate (bitrate_run BitrateCalculator_ctor calls)
   \<and> bc_currentBitrate (bitrate_run BitrateCalculator_ctor calls) \<le> 9200
   \<and> 3200 \<le> bc_currentBitrate (snd (BitrateCalculator_initialize BitrateCalculator_ctor initialBitrate))
   \<and> bc_currentBitrate (snd (BitrateCalculator_initialize BitrateCalculator_ctor initialBitrate)) \<le> 9200
   \<and> 3200 \<le> bc_currentBitrate (snd (updateNetworkMetrics (bitrate_run BitrateCalculator_ctor calls) network))
   \<and> bc_currentBitrate (snd (updateNetworkMetrics (bitrate_run BitrateCalculator_ctor calls) network)) \<le> 9200
   \<and> 3200 \<le> bc_currentBitrate (snd (updateAudioMetrics (bitrate_run BitrateCalculator_ctor calls) audio))
   \<and> bc_currentBitrate (snd (updateAudioMetrics (bitrate_run BitrateCalculator_ctor calls) audio)) \<le> 9200
   \<and> 3200 \<le> calculateOptimalBitrate_of bc network audio
   \<and> calculateOptimalBitrate_of bc network audio \<le> 9200"
proof -
  have start: "bitrate_in_range BitrateCalculator_ctor"
    by (simp add: bitrate_in_range_def BitrateCalculator_ctor_def LYRA_MIN_BITRATE_def
          LYRA_MAX_BITRATE_def LYRA_DEFAULT_BITRATE_def)
  have run: "bitrate_in_range (bitrate_run BitrateCalculator_ctor calls)"
    using start by (rule bitrate_run_in_range)
  have init: "bitrate_in_range (bitrate_step BitrateCalculator_ctor (CallInitialize initialBitrate))"
    using start by (rule bitrate_step_in_range)
  have net: "bitrate_in_range (snd (updateNetworkMetrics (bitrate_run BitrateCalculator_ctor calls) network))"
    using run by (rule updateNetworkMetrics_in_range)
  have aud: "bitrate_in_range (snd (updateAudioMetrics (bitrate_run BitrateCalculator_ctor calls) audio))"
    using run by (rule updateAudioMetrics_in_range)
  show ?thesis
    using run init net aud calculateOptimalBitrate_of_range [of bc network audio]
    by (simp add: bitrate_in_range_def LYRA_MIN_BITRATE_def LYRA_MAX_BITRATE_def)
qed

section \<open>Verification: repeated metrics\<close>

text \<open>
  On an initialized calculator with adaptation enabled an update stores the metrics and
  then blocks in the second lock of the mutex: it never returns and commits nothing.
\<close>

lemma update_of_initialized_never_returns:
  assumes "bc_initialized bc" and "autoAdaptationEnabled bc" and "\<not> metricsMutex_locked bc"
  shows "updateNetworkMetrics bc network
           = (NeverReturns, bc\<lparr>metricsMutex_locked := True, networkMetrics := network\<rparr>)"
    and "updateAudioMetrics bc audio
           = (NeverReturns, bc\<lparr>metricsMutex_locked := True, audioMetrics := audio\<rparr>)"
  using assms
  by (simp_all add: updateNetworkMetrics_def updateAudioMetrics_def calculateOptimalBitrate_def Let_def)

lemma commitBitrate_keeps:
  "bc_initialized (commitBitrate bc b) = bc_initialized bc"
  "metricsMutex_locked (commitBitrate bc b) = metricsMutex_locked bc"
  "stabilityThreshold (commitBitrate bc b) = stabilityThreshold bc"
  "networkMetrics (commitBitrate bc b) = networkMetrics bc"
  "audioMetrics (commitBitrate bc b) = audioMetrics bc"
  "bitrateChanges (commitBitrate bc b) = bitrateChanges bc + 1"
  by (simp_all add: commitBitrate_def addToHistory_def Let_def)


























text \<open>
  With the threshold set to 0 the change ratio 0 passes the test: each later update
  stores the same bitrate again and counts it, and the bitrate itself stays.
\<close>

lemma zero_threshold_commits_same_value:
  assumes "\<not> bc_initialized bc" and "\<not> metricsMutex_locked bc" and "autoAdaptationEnabled bc"
    and "bc_currentBitrate bc = LYRA_DEFAULT_BITRATE" and "stabilityThreshold bc = 0"
  shows "bc_currentBitrate (snd (updateNetworkMetrics bc network)) = bc_currentBitrate bc"
    and "bitrateChanges (snd (updateNetworkMetrics bc network)) = bitrateChanges bc + 1"
proof -
  let ?bc = "bc\<lparr>metricsMutex_locked := True, networkMetrics := network\<rparr>"
  have "shouldUpdateBitrate ?bc LYRA_DEFAULT_BITRATE"
    using assms by (simp add: shouldUpdateBitrate_def fsub_def fdiv_def float_round_def Let_def)
  then show "bc_currentBitrate (snd (updateNetworkMetrics bc network)) = bc_currentBitrate bc"
    and "bitrateChanges (snd (updateNetworkMetrics bc network)) = bitrateChanges bc + 1"
    using assms
    by (simp_all add: updateNetworkMetrics_def calculateOptimalBitrate_def commitBitrate_current
          commitBitrate_keeps Let_def)
qed

end
